theory Spec2Isabelle
  imports Main "HOL-Library.Word"
begin

text \<open>
  The backend of verified-chain is an Express server with one route. Its handler runs
  the ezkl prover as a child process, reads the proof file the prover wrote, hashes it,
  sends the hash to a contract with \<^verbatim>\<open>create_proof\<close> and asks the contract to check it
  with \<^verbatim>\<open>verify_proof\<close>. The functions of \<^verbatim>\<open>backend.js\<close> and
  \<^verbatim>\<open>utils/hashMessaje.js\<close> are defined below as functions on an explicit state. What
  the code calls but does not contain (the prover, the file system, web3 and the node
  behind it, the digest of crypto-js) answers as a parameter says, and every call and
  every line logged is recorded in the state, in order.
\<close>

section \<open>JavaScript strings and byte buffers\<close>

text \<open>
  A Node.js \<^verbatim>\<open>Buffer\<close> / \<^verbatim>\<open>Uint8Array\<close> is a list of bytes; a JavaScript string is a
  list of UTF-16 code units. String literals of the source are ASCII and written with
  \<open>str\<close>.
\<close>

type_synonym byte = "8 word"
type_synonym jsstring = "16 word list"

definition str :: "string \<Rightarrow> jsstring" where
  "str s = map (\<lambda>c. of_nat (of_char c)) s"

subsection \<open>UTF-8 encoding of a string (\<^verbatim>\<open>TextEncoder.encode\<close>, \<^verbatim>\<open>Buffer.from(s, 'utf8')\<close>)\<close>

text \<open>The UTF-8 bytes of one code point.\<close>

definition utf8_bytes_of_cp :: "nat \<Rightarrow> byte list" where
  "utf8_bytes_of_cp cp =
     (if cp < 0x80 then [of_nat cp]
      else if cp < 0x800 then
        [of_nat (0xC0 + cp div 0x40), of_nat (0x80 + cp mod 0x40)]
      else if cp < 0x10000 then
        [of_nat (0xE0 + cp div 0x1000), of_nat (0x80 + cp div 0x40 mod 0x40),
         of_nat (0x80 + cp mod 0x40)]
      else
        [of_nat (0xF0 + cp div 0x40000), of_nat (0x80 + cp div 0x1000 mod 0x40),
         of_nat (0x80 + cp div 0x40 mod 0x40), of_nat (0x80 + cp mod 0x40)])"

definition is_high_surrogate :: "16 word \<Rightarrow> bool" where
  "is_high_surrogate u = (0xD800 \<le> unat u \<and> unat u \<le> 0xDBFF)"

definition is_low_surrogate :: "16 word \<Rightarrow> bool" where
  "is_low_surrogate u = (0xDC00 \<le> unat u \<and> unat u \<le> 0xDFFF)"

text \<open>
  The code units of a string are read as code points (a surrogate pair is one code
  point, a lone surrogate is replaced by U+FFFD, whose UTF-8 bytes are EF BF BD) and
  each code point is written in UTF-8.
\<close>

definition utf8_bytes_of_unit :: "16 word \<Rightarrow> byte list" where
  "utf8_bytes_of_unit u =
     (if is_high_surrogate u \<or> is_low_surrogate u then [0xEF, 0xBF, 0xBD]
      else utf8_bytes_of_cp (unat u))"

fun utf8_encode :: "jsstring \<Rightarrow> byte list" where
  "utf8_encode [] = []"
| "utf8_encode [u] = utf8_bytes_of_unit u"
| "utf8_encode (u # v # vs) =
     (if is_high_surrogate u \<and> is_low_surrogate v then
        utf8_bytes_of_cp (0x10000 + (unat u - 0xD800) * 0x400 + (unat v - 0xDC00))
          @ utf8_encode vs
      else utf8_bytes_of_unit u @ utf8_encode (v # vs))"

subsection \<open>UTF-8 decoding of a buffer (\<^verbatim>\<open>Buffer.prototype.toString()\<close>)\<close>

text \<open>
  \<^verbatim>\<open>buf.toString()\<close> decodes the bytes as UTF-8; what is not well-formed UTF-8 is
  replaced by U+FFFD. The decoder is either between characters or inside a multi-byte
  sequence, where it holds the number of continuation bytes still needed, the code
  point collected so far and the range allowed for the next byte.
\<close>

datatype decoder = Between | Inside nat nat nat nat

definition units_of_cp :: "nat \<Rightarrow> jsstring" where
  "units_of_cp cp =
     (if cp < 0x10000 then [of_nat cp]
      else [of_nat (0xD800 + (cp - 0x10000) div 0x400),
            of_nat (0xDC00 + (cp - 0x10000) mod 0x400)])"

text \<open>A byte read between characters: the units it yields and the decoder after it.\<close>

definition lead_byte :: "nat \<Rightarrow> jsstring \<times> decoder" where
  "lead_byte b =
     (if b \<le> 0x7F then ([of_nat b], Between)
      else if 0xC2 \<le> b \<and> b \<le> 0xDF then ([], Inside 1 (b mod 0x20) 0x80 0xBF)
      else if 0xE0 \<le> b \<and> b \<le> 0xEF then
        ([], Inside 2 (b mod 0x10) (if b = 0xE0 then 0xA0 else 0x80)
                                    (if b = 0xED then 0x9F else 0xBF))
      else if 0xF0 \<le> b \<and> b \<le> 0xF4 then
        ([], Inside 3 (b mod 0x08) (if b = 0xF0 then 0x90 else 0x80)
                                    (if b = 0xF4 then 0x8F else 0xBF))
      else ([0xFFFD], Between))"

fun utf8_decode :: "decoder \<Rightarrow> byte list \<Rightarrow> jsstring" where
  "utf8_decode Between [] = []"
| "utf8_decode (Inside n cp lo hi) [] = [0xFFFD]"
| "utf8_decode Between (b # bs) =
     (case lead_byte (unat b) of (out, d) \<Rightarrow> out @ utf8_decode d bs)"
| "utf8_decode (Inside n cp lo hi) (b # bs) =
     (if lo \<le> unat b \<and> unat b \<le> hi then
        (if n = 1 then units_of_cp (cp * 0x40 + unat b mod 0x40) @ utf8_decode Between bs
         else utf8_decode (Inside (n - 1) (cp * 0x40 + unat b mod 0x40) 0x80 0xBF) bs)
      else
        0xFFFD # (case lead_byte (unat b) of (out, d) \<Rightarrow> out @ utf8_decode d bs))"

definition bufferToString :: "byte list \<Rightarrow> jsstring" where
  "bufferToString buf = utf8_decode Between buf"

section \<open>utils/hashMessaje.js\<close>

text \<open>
  \<^verbatim>\<open>utf8ToBytes\<close> of ethereum-cryptography is \<^verbatim>\<open>new TextEncoder().encode(str)\<close>.
\<close>

definition utf8ToBytes :: "jsstring \<Rightarrow> byte list" where
  "utf8ToBytes message = utf8_encode message"

text \<open>
  The template literal \<^verbatim>\<open>`0x${hash}`\<close> calls \<^verbatim>\<open>hash.toString()\<close>, which writes every
  byte of the digest as two lower-case hexadecimal digits.
\<close>

definition hex_digit :: "nat \<Rightarrow> char" where
  "hex_digit n = ''0123456789abcdef'' ! (n mod 16)"

definition hex_stringify :: "byte list \<Rightarrow> string" where
  "hex_stringify hash = concat (map (\<lambda>b. [hex_digit (unat b div 16), hex_digit (unat b mod 16)]) hash)"

text \<open>
  \<^verbatim>\<open>SHA256\<close> is the function that \<^verbatim>\<open>require('crypto-js/sha256')\<close> returns, as
  \<^verbatim>\<open>hashMessage\<close> calls it: on the \<^verbatim>\<open>Uint8Array\<close> that \<^verbatim>\<open>utf8ToBytes\<close> made. The package
  is not part of the repository, and the function is a parameter of everything that
  hashes: from the array it is handed to the 32 bytes of the \<^verbatim>\<open>WordArray\<close> it returns.
  Nothing is assumed of the parameter, in particular not that it computes SHA-256 of
  the bytes of the array; what crypto-js does with such an array is \<open>cryptojs_SHA256\<close>
  below.
\<close>

definition hashMessage :: "(byte list \<Rightarrow> byte list) \<Rightarrow> jsstring \<Rightarrow> jsstring" where
  "hashMessage SHA256 message =
     (let bytes = utf8ToBytes message;
          hash = SHA256 bytes
      in str (''0x'' @ hex_stringify hash))"

subsection \<open>\<^verbatim>\<open>SHA256\<close> of crypto-js on a \<^verbatim>\<open>Uint8Array\<close>\<close>

unbundle bit_operations_syntax

type_synonym word32 = "32 word"

text \<open>
  The hasher of crypto-js works on arrays of 32-bit words. Its state starts as \<open>H_init\<close>
  and its round constants are \<open>K\<close>; \<^verbatim>\<open>sha256.js\<close> computes both from the first primes
  when it is loaded, and they are the constants of the SHA-256 standard.
\<close>

definition H_init :: "word32 list" where
  "H_init = [0x6A09E667, 0xBB67AE85, 0x3C6EF372, 0xA54FF53A,
             0x510E527F, 0x9B05688C, 0x1F83D9AB, 0x5BE0CD19]"

definition K :: "word32 list" where
  "K = [0x428A2F98, 0x71374491, 0xB5C0FBCF, 0xE9B5DBA5, 0x3956C25B, 0x59F111F1,
        0x923F82A4, 0xAB1C5ED5, 0xD807AA98, 0x12835B01, 0x243185BE, 0x550C7DC3,
        0x72BE5D74, 0x80DEB1FE, 0x9BDC06A7, 0xC19BF174, 0xE49B69C1, 0xEFBE4786,
        0x0FC19DC6, 0x240CA1CC, 0x2DE92C6F, 0x4A7484AA, 0x5CB0A9DC, 0x76F988DA,
        0x983E5152, 0xA831C66D, 0xB00327C8, 0xBF597FC7, 0xC6E00BF3, 0xD5A79147,
        0x06CA6351, 0x14292967, 0x27B70A85, 0x2E1B2138, 0x4D2C6DFC, 0x53380D13,
        0x650A7354, 0x766A0ABB, 0x81C2C92E, 0x92722C85, 0xA2BFE8A1, 0xA81A664B,
        0xC24B8B70, 0xC76C51A3, 0xD192E819, 0xD6990624, 0xF40E3585, 0x106AA070,
        0x19A4C116, 0x1E376C08, 0x2748774C, 0x34B0BCB5, 0x391C0CB3, 0x4ED8AA4A,
        0x5B9CCA4F, 0x682E6FF3, 0x748F82EE, 0x78A5636F, 0x84C87814, 0x8CC70208,
        0x90BEFFFA, 0xA4506CEB, 0xBEF9A3F7, 0xC67178F2]"

text \<open>
  \<^verbatim>\<open>_doProcessBlock\<close>. The loop of the source fills \<^verbatim>\<open>W[i]\<close> and runs round \<open>i\<close> in one
  pass; here the 64 words are made first, newest first in the list, and the rounds
  follow. JavaScript adds the words as doubles and cuts to 32 bits with \<^verbatim>\<open>| 0\<close> and
  with its bit operators; the sums stay far below \<open>2\<^sup>5\<^sup>3\<close>, so that this is addition
  of 32-bit words.
\<close>

definition gamma0 :: "word32 \<Rightarrow> word32" where
  "gamma0 x = ((push_bit 25 x OR drop_bit 7 x) XOR (push_bit 14 x OR drop_bit 18 x)) XOR drop_bit 3 x"

definition gamma1 :: "word32 \<Rightarrow> word32" where
  "gamma1 x = ((push_bit 15 x OR drop_bit 17 x) XOR (push_bit 13 x OR drop_bit 19 x)) XOR drop_bit 10 x"

fun message_schedule :: "nat \<Rightarrow> word32 list \<Rightarrow> word32 list" where
  "message_schedule 0 W = W"
| "message_schedule (Suc n) W =
     message_schedule n ((gamma0 (W ! 14) + W ! 6 + gamma1 (W ! 1) + W ! 15) # W)"

fun sha_round :: "word32 list \<Rightarrow> word32 \<times> word32 \<Rightarrow> word32 list" where
  "sha_round [a, b, c, d, e, f, g, h] (k, w) =
     (let ch = (e AND f) XOR (NOT e AND g);
          maj = ((a AND b) XOR (a AND c)) XOR (b AND c);
          sigma0 = ((push_bit 30 a OR drop_bit 2 a) XOR (push_bit 19 a OR drop_bit 13 a))
                     XOR (push_bit 10 a OR drop_bit 22 a);
          sigma1 = ((push_bit 26 e OR drop_bit 6 e) XOR (push_bit 21 e OR drop_bit 11 e))
                     XOR (push_bit 7 e OR drop_bit 25 e);
          t1 = h + sigma1 + ch + k + w;
          t2 = sigma0 + maj
      in [t1 + t2, a, b, c, d + t1, e, f, g])"
| "sha_round H kw = H"

definition doProcessBlock :: "word32 list \<Rightarrow> word32 list \<Rightarrow> word32 list" where
  "doProcessBlock H M = map2 (+) H (foldl sha_round H (zip K (rev (message_schedule 48 (rev M)))))"

text \<open>
  \<^verbatim>\<open>Hex.stringify\<close> reads a \<^verbatim>\<open>WordArray\<close> byte by byte, the high byte of every word
  first.
\<close>

definition word_bytes :: "word32 \<Rightarrow> byte list" where
  "word_bytes w = [ucast (drop_bit 24 w), ucast (drop_bit 16 w), ucast (drop_bit 8 w), ucast w]"

text \<open>
  \<^verbatim>\<open>SHA256(bytes)\<close> is \<^verbatim>\<open>new SHA256.init().finalize(bytes)\<close>. \<^verbatim>\<open>finalize\<close> appends its
  argument to the data of the hasher: \<^verbatim>\<open>_append\<close> turns a string into a \<^verbatim>\<open>WordArray\<close>
  and leaves everything else as it is, and \<^verbatim>\<open>concat\<close> then reads \<^verbatim>\<open>words\<close> and
  \<^verbatim>\<open>sigBytes\<close> of what it was given. A \<^verbatim>\<open>Uint8Array\<close> has neither: both are
  \<^verbatim>\<open>undefined\<close>, the loop that copies words while its index is below \<^verbatim>\<open>sigBytes\<close>
  does not run, and the byte counts of the hasher become \<^verbatim>\<open>NaN\<close>. \<^verbatim>\<open>_doFinalize\<close> pads with
  \<^verbatim>\<open>dataWords[nBitsLeft >>> 5] |= 0x80 << (24 - nBitsLeft % 32)\<close>, where the bit
  operators read \<^verbatim>\<open>NaN\<close> as 0: word 0 becomes \<open>0x80\<close>. Words 14 and 15, the length,
  are set to \<^verbatim>\<open>NaN\<close>, words 1 to 13 stay empty, and \<^verbatim>\<open>M[offset + i] | 0\<close> reads all of
  them as 0. So one block is hashed, and it is the same block whatever the bytes of
  the array are.
\<close>

definition cryptojs_SHA256 :: "byte list \<Rightarrow> byte list" where
  "cryptojs_SHA256 typedArray =
     concat (map word_bytes (doProcessBlock H_init (0x80 # replicate 15 0)))"

subsection \<open>SHA-256 of a byte sequence\<close>

text \<open>
  The digest that the standard (FIPS 180-4) gives a sequence of bytes: the bytes are
  followed by the byte 80, by zero bytes up to 56 modulo 64 and by their number of
  bits in eight bytes, and the blocks of 16 big-endian words are processed in order.
\<close>

definition sha256_padding :: "byte list \<Rightarrow> byte list" where
  "sha256_padding bytes =
     bytes @ [0x80] @ replicate ((119 - length bytes mod 64) mod 64) 0
       @ map (\<lambda>i. of_nat (8 * length bytes div 256 ^ i)) [7, 6, 5, 4, 3, 2, 1, 0]"

fun words_of_bytes :: "byte list \<Rightarrow> word32 list" where
  "words_of_bytes (a # b # c # d # bytes) =
     (push_bit 24 (ucast a) OR push_bit 16 (ucast b) OR push_bit 8 (ucast c) OR ucast d)
       # words_of_bytes bytes"
| "words_of_bytes bytes = []"

fun sha256_blocks :: "word32 list \<Rightarrow> word32 list \<Rightarrow> word32 list" where
  "sha256_blocks H [] = H"
| "sha256_blocks H (w # ws) = sha256_blocks (doProcessBlock H (take 16 (w # ws))) (drop 16 (w # ws))"

definition sha256 :: "byte list \<Rightarrow> byte list" where
  "sha256 bytes =
     concat (map word_bytes (sha256_blocks H_init (words_of_bytes (sha256_padding bytes))))"

section \<open>Values, errors and the collaborators of backend.js\<close>

text \<open>
  A query parameter as Express parses it: absent, a string, an array or an object.
  \<open>js_to_string\<close> is the conversion that \<^verbatim>\<open>+\<close> applies to an operand of a string
  concatenation, for the objects that inherit \<^verbatim>\<open>toString\<close>: an object is then
  \<^verbatim>\<open>[object Object]\<close> whatever its keys. An object with a key \<^verbatim>\<open>toString\<close> of its own
  (\<^verbatim>\<open>?hello[toString]=x\<close>) cannot be converted: the concatenation in the handler throws
  a \<^verbatim>\<open>TypeError\<close> before \<^verbatim>\<open>proof\<close> is called, no collaborator is called and nothing is
  sent. Such a query is not among those that \<open>verified_chain\<close> describes.
\<close>

datatype qvalue =
    QUndefined
  | QString jsstring
  | QArray "qvalue list"
  | QObject "(jsstring \<times> qvalue) list"

fun join_comma :: "jsstring list \<Rightarrow> jsstring" where
  "join_comma [] = []"
| "join_comma [s] = s"
| "join_comma (s # t # ts) = s @ str '','' @ join_comma (t # ts)"

fun js_to_string :: "qvalue \<Rightarrow> jsstring" where
  "js_to_string QUndefined = str ''undefined''"
| "js_to_string (QString s) = s"
| "js_to_string (QArray xs) =
     join_comma (map (\<lambda>x. if x = QUndefined then [] else js_to_string x) xs)"
| "js_to_string (QObject kvs) = str ''[object Object]''"

text \<open>
  What a collaborator throws or rejects with: the error of the promisified
  \<^verbatim>\<open>child_process.exec\<close> (exit code, stdout, stderr), an error of \<^verbatim>\<open>fs\<close> on a path,
  and an error of web3.
\<close>

datatype error =
    ExecError nat jsstring jsstring
  | FsError string
  | Web3Error jsstring

datatype jsvalue = JStr jsstring | JNum nat

text \<open>An object literal: its keys in order, with their values.\<close>

type_synonym jsobject = "(string \<times> jsvalue) list"

text \<open>
  The calls the code makes to its collaborators, in the order it makes them.
  \<open>ResSend\<close> is \<^verbatim>\<open>res.send({"message": message})\<close> with the status of the response.
\<close>

datatype call =
    Exec string
  | ReadFileSync string
  | WriteFileSync string jsstring
  | PrivateKeyToAccount
  | WalletAdd jsstring
  | Create_proof jsstring
  | GetGasPrice
  | EstimateGas jsstring jsstring
  | EncodeABI jsstring
  | SendTransaction jsobject
  | Counter
  | Verify_proof int jsstring
  | GetTransactionCount string string
  | SignTransaction jsobject
  | SendSignedTransaction jsstring
  | ResSend nat jsstring

text \<open>What the code writes with \<^verbatim>\<open>console.log\<close>.\<close>

datatype logged =
    LogOutput jsstring jsstring qvalue qvalue qvalue
  | LogAccount jsstring
  | LogString jsstring
  | LogReceipt jsstring
  | LogError error
  | LogMyError error
  | LogVerified bool
  | LogTxHash jsstring
  | LogTxError error

text \<open>
  The state a request runs in: the file system, \<^verbatim>\<open>provider.eth.defaultAccount\<close>, and
  what has been called and logged so far.
\<close>

record world =
  files :: "string \<rightharpoonup> byte list"
  defaultAccount :: "jsstring option"
  calls :: "call list"
  console :: "logged list"

text \<open>
  What the collaborators answer during one request. The prover is an external process:
  it changes the file system and ends with an exit code, stdout and stderr. Every
  web3 operation either returns a value or fails with an error.
\<close>

record env =
  prover :: "(string \<rightharpoonup> byte list) \<Rightarrow> (nat \<times> jsstring \<times> jsstring) \<times> (string \<rightharpoonup> byte list)"
  writeFile_error :: "error option"
  privateKeyToAccount :: "error + jsstring"
  getGasPrice :: "error + jsstring"
  estimateGas :: "jsstring \<Rightarrow> jsstring \<Rightarrow> error + nat"
  encodeABI :: "jsstring \<Rightarrow> error + jsstring"
  sendTransaction :: "jsobject \<Rightarrow> error + jsstring"
  counter :: "error + nat"
  verify_proof :: "int \<Rightarrow> jsstring \<Rightarrow> error + bool"

definition invoke :: "call \<Rightarrow> world \<Rightarrow> world" where
  "invoke c w = w\<lparr>calls := calls w @ [c]\<rparr>"

definition console_log :: "logged \<Rightarrow> world \<Rightarrow> world" where
  "console_log x w = w\<lparr>console := console w @ [x]\<rparr>"

text \<open>
  \<^verbatim>\<open>util.promisify(child_process.exec)\<close>: the promise resolves with stdout and stderr
  when the process exits with code 0 and rejects with the error otherwise. The call is
  recorded when the promise settles, together with what the process did to the files.
\<close>

definition exec :: "env \<Rightarrow> string \<Rightarrow> world \<Rightarrow> (error + jsstring \<times> jsstring) \<times> world" where
  "exec env cmd w =
     (case prover env (files w) of
        ((code, stdout, stderr), fs) \<Rightarrow>
          (if code = 0 then Inr (stdout, stderr) else Inl (ExecError code stdout stderr),
           (invoke (Exec cmd) w)\<lparr>files := fs\<rparr>))"

definition readFileSync :: "string \<Rightarrow> world \<Rightarrow> (error + byte list) \<times> world" where
  "readFileSync path w =
     (case files w path of
        None \<Rightarrow> (Inl (FsError path), invoke (ReadFileSync path) w)
      | Some buf \<Rightarrow> (Inr buf, invoke (ReadFileSync path) w))"

definition writeFileSync :: "env \<Rightarrow> string \<Rightarrow> jsstring \<Rightarrow> world \<Rightarrow> (error + unit) \<times> world" where
  "writeFileSync env path content w =
     (case writeFile_error env of
        Some e \<Rightarrow> (Inl e, invoke (WriteFileSync path content) w)
      | None \<Rightarrow>
          (Inr (), (invoke (WriteFileSync path content) w)
                     \<lparr>files := (files w)(path \<mapsto> utf8_encode content)\<rparr>))"

subsection \<open>\<^verbatim>\<open>weiCounter - 1\<close>\<close>

text \<open>
  web3 returns the counter as a decimal string; \<^verbatim>\<open>weiCounter - 1\<close> converts it to a
  Number, the nearest double (ties to even), and subtracts in double arithmetic.
\<close>

fun bit_length :: "nat \<Rightarrow> nat" where
  "bit_length n = (if n = 0 then 0 else Suc (bit_length (n div 2)))"

declare bit_length.simps [simp del]

definition to_double :: "nat \<Rightarrow> nat" where
  "to_double n =
     (if n < 2 ^ 53 then n
      else let e = bit_length n - 53; q = n div 2 ^ e; r = n mod 2 ^ e
           in (if 2 ^ e < 2 * r \<or> (2 * r = 2 ^ e \<and> odd q) then q + 1 else q) * 2 ^ e)"

definition js_minus_one :: "nat \<Rightarrow> int" where
  "js_minus_one weiCounter =
     (let v = to_double weiCounter in if v = 0 then - 1 else int (to_double (v - 1)))"

section \<open>backend.js\<close>

definition CONTRACT_ADDRESS :: jsstring where
  "CONTRACT_ADDRESS = str ''0x7897e2050b129DC4934fe815807FC0Fe1C291194''"

definition PROOF_PATH :: string where
  "PROOF_PATH = ''./ezkl/1l_relu.pf''"

definition PROVE_COMMAND :: string where
  "PROVE_COMMAND = ''cd ezkl && ezkl -K=17 gen-srs --params-path=kzg.params && ezkl --bits=16 -K=17 prove -D ./examples/onnx/1l_relu/input.json -M ./examples/onnx/1l_relu/network.onnx --proof-path 1l_relu.pf --vk-path 1l_relu.vk --params-path=kzg.params''"

text \<open>
  \<^verbatim>\<open>relaySetProof(hello)\<close>: the whole body is inside \<^verbatim>\<open>try\<close>, and the \<^verbatim>\<open>catch\<close> logs
  the error, so the function always returns normally. The two calls of
  \<^verbatim>\<open>web3.utils\<close> on the address are pure and their results are dropped; they are left
  out. \<^verbatim>\<open>Promise.all\<close> starts both the gas price query and the gas estimation before
  either is awaited; when both fail, the error logged is here that of the gas price.
\<close>

definition relaySetProof :: "env \<Rightarrow> jsstring \<Rightarrow> world \<Rightarrow> world" where
  "relaySetProof env hello w =
     (case privateKeyToAccount env of
        Inl e \<Rightarrow> console_log (LogError e) (invoke PrivateKeyToAccount w)
      | Inr account \<Rightarrow>
          let w1 = console_log (LogAccount account) (invoke PrivateKeyToAccount w);
              w2 = (invoke (WalletAdd account) w1)\<lparr>defaultAccount := Some account\<rparr>;
              w3 = console_log (LogString account) w2;
              w4 = invoke (Create_proof hello) w3;
              w5 = invoke (EstimateGas hello account) (invoke GetGasPrice w4)
          in (case getGasPrice env of
                Inl e \<Rightarrow> console_log (LogError e) w5
              | Inr gasPrice \<Rightarrow>
                 (case estimateGas env hello account of
                    Inl e \<Rightarrow> console_log (LogError e) w5
                  | Inr gasCost1 \<Rightarrow>
                     let w6 = invoke (EncodeABI hello) w5 in
                     (case encodeABI env hello of
                        Inl e \<Rightarrow> console_log (LogError e) w6
                      | Inr dataTx \<Rightarrow>
                         let txData = [(''to'', JStr CONTRACT_ADDRESS), (''data'', JStr dataTx),
                                       (''gas'', JNum gasCost1), (''gasPrice'', JStr gasPrice)];
                             w7 = invoke (SendTransaction txData) w6
                         in (case sendTransaction env txData of
                               Inl e \<Rightarrow> console_log (LogError e) w7
                             | Inr receipt \<Rightarrow> console_log (LogReceipt receipt) w7)))))"

text \<open>
  \<^verbatim>\<open>proof(hello, helloSetter, signature)\<close> after the \<^verbatim>\<open>await exec(...)\<close> of its first
  line has resolved with \<open>stdout\<close> and \<open>stderr\<close>.
\<close>

definition proof_after_exec ::
  "(byte list \<Rightarrow> byte list) \<Rightarrow> env \<Rightarrow> qvalue \<Rightarrow> qvalue \<Rightarrow> qvalue \<Rightarrow> jsstring \<Rightarrow> jsstring \<Rightarrow> world
     \<Rightarrow> (error + jsstring \<times> jsstring \<times> jsstring) \<times> world" where
  "proof_after_exec SHA256 env hello helloSetter signature stdout stderr w =
     (let w1 = console_log (LogOutput stdout stderr hello helloSetter signature) w in
      case readFileSync PROOF_PATH w1 of
        (Inl e, w2) \<Rightarrow> (Inl e, w2)
      | (Inr buf, w2) \<Rightarrow>
          let verifyContent = bufferToString buf in
          (case writeFileSync env ''test.txt'' verifyContent w2 of
             (Inl e, w3) \<Rightarrow> (Inl e, w3)
           | (Inr _, w3) \<Rightarrow>
               let message = hashMessage SHA256 verifyContent;
                   w4 = console_log (LogString message) w3;
                   w5 = relaySetProof env message w4
               in (Inr (stdout, stderr, message), w5)))"

text \<open>
  \<^verbatim>\<open>proof(hello, helloSetter, signature)\<close>, named \<open>proof_js\<close> because \<^verbatim>\<open>proof\<close> is a
  keyword here; an error that leaves it is its rejection.
\<close>

definition proof_js ::
  "(byte list \<Rightarrow> byte list) \<Rightarrow> env \<Rightarrow> qvalue \<Rightarrow> qvalue \<Rightarrow> qvalue \<Rightarrow> world
     \<Rightarrow> (error + jsstring \<times> jsstring \<times> jsstring) \<times> world" where
  "proof_js SHA256 env hello helloSetter signature w =
     (case exec env PROVE_COMMAND w of
        (Inl e, w1) \<Rightarrow> (Inl e, w1)
      | (Inr (stdout, stderr), w1) \<Rightarrow>
          proof_after_exec SHA256 env hello helloSetter signature stdout stderr w1)"

text \<open>\<^verbatim>\<open>verifyProof()\<close>: again the whole body is inside \<^verbatim>\<open>try\<close>.\<close>

definition verifyProof :: "(byte list \<Rightarrow> byte list) \<Rightarrow> env \<Rightarrow> world \<Rightarrow> world" where
  "verifyProof SHA256 env w =
     (case privateKeyToAccount env of
        Inl e \<Rightarrow> console_log (LogMyError e) (invoke PrivateKeyToAccount w)
      | Inr account \<Rightarrow>
          let w1 = (invoke (WalletAdd account) (invoke PrivateKeyToAccount w))
                     \<lparr>defaultAccount := Some account\<rparr>;
              w2 = invoke Counter w1
          in (case counter env of
                Inl e \<Rightarrow> console_log (LogMyError e) w2
              | Inr weiCounter \<Rightarrow>
                 (case readFileSync PROOF_PATH w2 of
                    (Inl e, w3) \<Rightarrow> console_log (LogMyError e) w3
                  | (Inr buf, w3) \<Rightarrow>
                     let verifyContent = bufferToString buf;
                         message = hashMessage SHA256 verifyContent;
                         w4 = invoke (Verify_proof (js_minus_one weiCounter) message) w3
                     in (case verify_proof env (js_minus_one weiCounter) message of
                           Inl e \<Rightarrow> console_log (LogMyError e) w4
                         | Inr txCreateProof \<Rightarrow> console_log (LogVerified txCreateProof) w4))))"

text \<open>
  The handler of \<^verbatim>\<open>GET /verified-chain\<close>. When \<^verbatim>\<open>await proof(...)\<close> rejects, the
  handler rejects there and sends nothing; otherwise it sends the message with the
  default status 200.
\<close>

definition verified_chain_message :: "(string \<Rightarrow> qvalue) \<Rightarrow> jsstring" where
  "verified_chain_message query =
     js_to_string (query ''helloSetter'') @ str '' setted hello to '' @ str '' ''
       @ js_to_string (query ''hello'')"

definition verified_chain ::
  "(byte list \<Rightarrow> byte list) \<Rightarrow> env \<Rightarrow> (string \<Rightarrow> qvalue) \<Rightarrow> world \<Rightarrow> (error + unit) \<times> world" where
  "verified_chain SHA256 env query w =
     (let hello = query ''hello'';
          helloSetter = query ''helloSetter'';
          signature = query ''signature'';
          message = verified_chain_message query
      in case proof_js SHA256 env hello helloSetter signature w of
           (Inl e, w1) \<Rightarrow> (Inl e, w1)
         | (Inr _, w1) \<Rightarrow>
             (Inr (), invoke (ResSend 200 message) (verifyProof SHA256 env w1)))"

subsection \<open>Two requests in flight\<close>

text \<open>
  The handler after its \<^verbatim>\<open>await exec(...)\<close> has settled with \<open>r\<close>: the rest of
  \<^verbatim>\<open>proof\<close>, then \<^verbatim>\<open>verifyProof\<close> and the response.
\<close>

definition verified_chain_after_exec ::
  "(byte list \<Rightarrow> byte list) \<Rightarrow> env \<Rightarrow> (string \<Rightarrow> qvalue) \<Rightarrow> error + jsstring \<times> jsstring \<Rightarrow> world
     \<Rightarrow> (error + unit) \<times> world" where
  "verified_chain_after_exec SHA256 env query r w =
     (case r of
        Inl e \<Rightarrow> (Inl e, w)
      | Inr (stdout, stderr) \<Rightarrow>
          (case proof_after_exec SHA256 env (query ''hello'') (query ''helloSetter'')
                  (query ''signature'') stdout stderr w of
             (Inl e, w1) \<Rightarrow> (Inl e, w1)
           | (Inr _, w1) \<Rightarrow>
               (Inr (), invoke (ResSend 200 (verified_chain_message query))
                          (verifyProof SHA256 env w1))))"

text \<open>
  Node runs a handler until it awaits; while one request waits for its prover, another
  request's handler runs, and the prover processes run beside the server. A request is
  here in one of three states: its prover has not finished, its \<^verbatim>\<open>exec\<close> has settled
  and the rest of its handler has not run yet, or it has finished. A schedule names, step
  by step, the request that moves next. Both requests share the world.
\<close>

datatype task = AwaitExec | AfterExec "error + jsstring \<times> jsstring" | Finished "error + unit"

definition step ::
  "(byte list \<Rightarrow> byte list) \<Rightarrow> env \<times> (string \<Rightarrow> qvalue) \<Rightarrow> task \<Rightarrow> world \<Rightarrow> task \<times> world" where
  "step SHA256 request t w =
     (case t of
        AwaitExec \<Rightarrow> (case exec (fst request) PROVE_COMMAND w of (r, w1) \<Rightarrow> (AfterExec r, w1))
      | AfterExec r \<Rightarrow>
          (case verified_chain_after_exec SHA256 (fst request) (snd request) r w of
             (out, w1) \<Rightarrow> (Finished out, w1))
      | Finished out \<Rightarrow> (Finished out, w))"

fun run_schedule ::
  "(byte list \<Rightarrow> byte list) \<Rightarrow> (env \<times> (string \<Rightarrow> qvalue)) list \<Rightarrow> nat list \<Rightarrow> task list \<Rightarrow> world
     \<Rightarrow> task list \<times> world" where
  "run_schedule SHA256 requests [] tasks w = (tasks, w)"
| "run_schedule SHA256 requests (i # schedule) tasks w =
     (if i < length tasks \<and> i < length requests then
        (case step SHA256 (requests ! i) (tasks ! i) w of
           (t, w1) \<Rightarrow> run_schedule SHA256 requests schedule (tasks[i := t]) w1)
      else run_schedule SHA256 requests schedule tasks w)"

section \<open>The earlier revision of backend.js: \<^verbatim>\<open>relaySetHello\<close>\<close>

definition BACKEND_WALLET_ADDRESS :: string where
  "BACKEND_WALLET_ADDRESS = ''0x18747BE67c5886881075136eb678cEADaf808028''"

definition CONTRACT_ADDRESS_GOERLI :: string where
  "CONTRACT_ADDRESS_GOERLI = ''0xE59da879e33b71C145b7c526a7B8C5b93195C51D''"

record env_hello =
  getTransactionCount :: "error + nat"
  encodeABI_relaySetHello :: "qvalue \<Rightarrow> qvalue \<Rightarrow> qvalue \<Rightarrow> error + jsstring"
  signTransaction :: "jsobject \<Rightarrow> error + jsstring"
  sendSignedTransaction :: "jsstring \<Rightarrow> error + jsstring"

text \<open>
  \<^verbatim>\<open>relaySetHello(hello, helloSetter, signature)\<close>: nothing is caught, so an error of
  an awaited call is the rejection of the function. The result of
  \<^verbatim>\<open>sendSignedTransaction\<close> goes to its callback, which logs it.
\<close>

definition relaySetHello ::
  "env_hello \<Rightarrow> qvalue \<Rightarrow> qvalue \<Rightarrow> qvalue \<Rightarrow> world \<Rightarrow> (error + unit) \<times> world" where
  "relaySetHello env hello helloSetter signature w =
     (let w1 = invoke (GetTransactionCount BACKEND_WALLET_ADDRESS ''latest'') w in
      case getTransactionCount env of
        Inl e \<Rightarrow> (Inl e, w1)
      | Inr nonce \<Rightarrow>
          (case encodeABI_relaySetHello env hello helloSetter signature of
             Inl e \<Rightarrow> (Inl e, w1)
           | Inr data \<Rightarrow>
               let transaction =
                     [(''from'', JStr (str BACKEND_WALLET_ADDRESS)),
                      (''to'', JStr (str CONTRACT_ADDRESS_GOERLI)),
                      (''value'', JNum 0), (''gas'', JNum 300000), (''nonce'', JNum nonce),
                      (''data'', JStr data)];
                   w2 = invoke (SignTransaction transaction) w1
               in (case signTransaction env transaction of
                     Inl e \<Rightarrow> (Inl e, w2)
                   | Inr rawTransaction \<Rightarrow>
                       let w3 = invoke (SendSignedTransaction rawTransaction) w2 in
                       (case sendSignedTransaction env rawTransaction of
                          Inr hash \<Rightarrow> (Inr (), console_log (LogTxHash hash) w3)
                        | Inl error \<Rightarrow> (Inr (), console_log (LogTxError error) w3)))))"

section \<open>Vocabulary of the properties\<close>

text \<open>The calls and the log lines a run adds to those of the world it starts in.\<close>

definition calls_since :: "world \<Rightarrow> world \<Rightarrow> call list" where
  "calls_since w w' = drop (length (calls w)) (calls w')"

definition console_since :: "world \<Rightarrow> world \<Rightarrow> logged list" where
  "console_since w w' = drop (length (console w)) (console w')"

text \<open>The calls one run of the handler makes.\<close>

definition handler_calls ::
  "(byte list \<Rightarrow> byte list) \<Rightarrow> env \<Rightarrow> (string \<Rightarrow> qvalue) \<Rightarrow> world \<Rightarrow> call list" where
  "handler_calls SHA256 env query w = calls_since w (snd (verified_chain SHA256 env query w))"

text \<open>The calls that go to the chain client (web3 and the contract).\<close>

fun is_chain_call :: "call \<Rightarrow> bool" where
  "is_chain_call PrivateKeyToAccount = True"
| "is_chain_call (WalletAdd a) = True"
| "is_chain_call (Create_proof c) = True"
| "is_chain_call GetGasPrice = True"
| "is_chain_call (EstimateGas c a) = True"
| "is_chain_call (EncodeABI c) = True"
| "is_chain_call (SendTransaction tx) = True"
| "is_chain_call Counter = True"
| "is_chain_call (Verify_proof i c) = True"
| "is_chain_call (GetTransactionCount a b) = True"
| "is_chain_call (SignTransaction tx) = True"
| "is_chain_call (SendSignedTransaction raw) = True"
| "is_chain_call c = False"

text \<open>The commitments handed to the contract, in \<^verbatim>\<open>create_proof\<close> and \<^verbatim>\<open>verify_proof\<close>.\<close>

fun commitment_of :: "call \<Rightarrow> jsstring option" where
  "commitment_of (Create_proof c) = Some c"
| "commitment_of (Verify_proof i c) = Some c"
| "commitment_of c = None"

definition commitments :: "call list \<Rightarrow> jsstring list" where
  "commitments cs = List.map_filter commitment_of cs"

text \<open>The transaction objects handed to \<^verbatim>\<open>sendTransaction\<close>.\<close>

fun transaction_of :: "call \<Rightarrow> jsobject option" where
  "transaction_of (SendTransaction tx) = Some tx"
| "transaction_of c = None"

definition transactions :: "call list \<Rightarrow> jsobject list" where
  "transactions cs = List.map_filter transaction_of cs"

fun is_ResSend :: "call \<Rightarrow> bool" where
  "is_ResSend (ResSend status body) = True"
| "is_ResSend c = False"

fun is_GetTransactionCount :: "call \<Rightarrow> bool" where
  "is_GetTransactionCount (GetTransactionCount address block) = True"
| "is_GetTransactionCount c = False"

fun signed_transaction_of :: "call \<Rightarrow> jsobject option" where
  "signed_transaction_of (SignTransaction tx) = Some tx"
| "signed_transaction_of c = None"

fun is_LogOutput :: "logged \<Rightarrow> bool" where
  "is_LogOutput (LogOutput stdout stderr hello helloSetter signature) = True"
| "is_LogOutput x = False"

fun is_LogReceipt :: "logged \<Rightarrow> bool" where
  "is_LogReceipt (LogReceipt r) = True"
| "is_LogReceipt x = False"

fun is_LogVerified :: "logged \<Rightarrow> bool" where
  "is_LogVerified (LogVerified b) = True"
| "is_LogVerified x = False"

text \<open>
  A request completes the pipeline: the handler returns, and on the way the
  submission has produced a receipt and \<^verbatim>\<open>verify_proof\<close> has returned.
\<close>

definition reaches_Done ::
  "(byte list \<Rightarrow> byte list) \<Rightarrow> env \<Rightarrow> (string \<Rightarrow> qvalue) \<Rightarrow> world \<Rightarrow> bool" where
  "reaches_Done SHA256 env query w =
     (case verified_chain SHA256 env query w of
        (out, w') \<Rightarrow>
          out = Inr () \<and> list_ex is_LogReceipt (console_since w w')
            \<and> list_ex is_LogVerified (console_since w w'))"



subsection \<open>The calls of each function, written out\<close>

definition relaySetProof_calls :: "env \<Rightarrow> jsstring \<Rightarrow> call list" where
  "relaySetProof_calls env hello =
     (case privateKeyToAccount env of
        Inl e \<Rightarrow> [PrivateKeyToAccount]
      | Inr account \<Rightarrow>
          [PrivateKeyToAccount, WalletAdd account, Create_proof hello, GetGasPrice,
           EstimateGas hello account]
          @ (case getGasPrice env of
               Inl e \<Rightarrow> []
             | Inr gasPrice \<Rightarrow>
                (case estimateGas env hello account of
                   Inl e \<Rightarrow> []
                 | Inr gasCost1 \<Rightarrow>
                    EncodeABI hello
                    # (case encodeABI env hello of
                         Inl e \<Rightarrow> []
                       | Inr dataTx \<Rightarrow>
                          [SendTransaction
                             [(''to'', JStr CONTRACT_ADDRESS), (''data'', JStr dataTx),
                              (''gas'', JNum gasCost1), (''gasPrice'', JStr gasPrice)]]))))"

definition verifyProof_calls ::
  "(byte list \<Rightarrow> byte list) \<Rightarrow> env \<Rightarrow> byte list option \<Rightarrow> call list" where
  "verifyProof_calls SHA256 env artifact =
     (case privateKeyToAccount env of
        Inl e \<Rightarrow> [PrivateKeyToAccount]
      | Inr account \<Rightarrow>
          [PrivateKeyToAccount, WalletAdd account, Counter]
          @ (case counter env of
               Inl e \<Rightarrow> []
             | Inr weiCounter \<Rightarrow>
                ReadFileSync PROOF_PATH
                # (case artifact of
                     None \<Rightarrow> []
                   | Some buf \<Rightarrow>
                      [Verify_proof (js_minus_one weiCounter)
                         (hashMessage SHA256 (bufferToString buf))])))"

definition after_exec_calls ::
  "(byte list \<Rightarrow> byte list) \<Rightarrow> env \<Rightarrow> (string \<Rightarrow> qvalue) \<Rightarrow> byte list option \<Rightarrow> call list" where
  "after_exec_calls SHA256 env query artifact =
     ReadFileSync PROOF_PATH
     # (case artifact of
          None \<Rightarrow> []
        | Some buf \<Rightarrow>
           WriteFileSync ''test.txt'' (bufferToString buf)
           # (case writeFile_error env of
                Some e \<Rightarrow> []
              | None \<Rightarrow>
                 relaySetProof_calls env (hashMessage SHA256 (bufferToString buf))
                 @ verifyProof_calls SHA256 env artifact
                 @ [ResSend 200 (verified_chain_message query)]))"

subsection \<open>The log lines of each function, written out\<close>

definition relaySetProof_logs :: "env \<Rightarrow> jsstring \<Rightarrow> logged list" where
  "relaySetProof_logs env hello =
     (case privateKeyToAccount env of
        Inl e \<Rightarrow> [LogError e]
      | Inr account \<Rightarrow>
          [LogAccount account, LogString account]
          @ (case getGasPrice env of
               Inl e \<Rightarrow> [LogError e]
             | Inr gasPrice \<Rightarrow>
                (case estimateGas env hello account of
                   Inl e \<Rightarrow> [LogError e]
                 | Inr gasCost1 \<Rightarrow>
                    (case encodeABI env hello of
                       Inl e \<Rightarrow> [LogError e]
                     | Inr dataTx \<Rightarrow>
                        (case sendTransaction env
                                [(''to'', JStr CONTRACT_ADDRESS), (''data'', JStr dataTx),
                                 (''gas'', JNum gasCost1), (''gasPrice'', JStr gasPrice)] of
                           Inl e \<Rightarrow> [LogError e]
                         | Inr receipt \<Rightarrow> [LogReceipt receipt])))))"

definition verifyProof_logs ::
  "(byte list \<Rightarrow> byte list) \<Rightarrow> env \<Rightarrow> byte list option \<Rightarrow> logged list" where
  "verifyProof_logs SHA256 env artifact =
     (case privateKeyToAccount env of
        Inl e \<Rightarrow> [LogMyError e]
      | Inr account \<Rightarrow>
          (case counter env of
             Inl e \<Rightarrow> [LogMyError e]
           | Inr weiCounter \<Rightarrow>
              (case artifact of
                 None \<Rightarrow> [LogMyError (FsError PROOF_PATH)]
               | Some buf \<Rightarrow>
                  (case verify_proof env (js_minus_one weiCounter)
                          (hashMessage SHA256 (bufferToString buf)) of
                     Inl e \<Rightarrow> [LogMyError e]
                   | Inr txCreateProof \<Rightarrow> [LogVerified txCreateProof]))))"

definition after_exec_logs ::
  "(byte list \<Rightarrow> byte list) \<Rightarrow> env \<Rightarrow> (string \<Rightarrow> qvalue) \<Rightarrow> jsstring \<Rightarrow> jsstring
     \<Rightarrow> byte list option \<Rightarrow> logged list" where
  "after_exec_logs SHA256 env query stdout stderr artifact =
     LogOutput stdout stderr (query ''hello'') (query ''helloSetter'') (query ''signature'')
     # (case artifact of
          None \<Rightarrow> []
        | Some buf \<Rightarrow>
           (case writeFile_error env of
              Some e \<Rightarrow> []
            | None \<Rightarrow>
               LogString (hashMessage SHA256 (bufferToString buf))
               # relaySetProof_logs env (hashMessage SHA256 (bufferToString buf))
               @ verifyProof_logs SHA256 env artifact))"

text \<open>
  The same collaborators, except that wherever \<^verbatim>\<open>verify_proof\<close> returns, its boolean
  is changed by \<open>f\<close>.
\<close>

definition with_verify_payload :: "(int \<Rightarrow> jsstring \<Rightarrow> bool \<Rightarrow> bool) \<Rightarrow> env \<Rightarrow> env" where
  "with_verify_payload f env =
     env\<lparr>verify_proof :=
           (\<lambda>index message. map_sum id (f index message) (verify_proof env index message))\<rparr>"

section \<open>Sample collaborators\<close>

text \<open>
  A stand-in for the digest where a concrete one is needed to run a request: 32 bytes
  that depend on the bytes hashed. What is shown with it does not depend on the digest.
\<close>

definition pad32 :: "byte list \<Rightarrow> byte list" where
  "pad32 bytes = take 32 (bytes @ replicate 32 0)"

definition world0 :: world where
  "world0 = \<lparr>files = Map.empty, defaultAccount = None, calls = [], console = []\<rparr>"

text \<open>
  A prover that exits with \<open>code\<close> and \<open>stderr\<close> after leaving \<open>artifact\<close> at the proof
  path, and a chain that accepts everything; the counter reads 6 after the submission.
\<close>

definition sample_env :: "nat \<Rightarrow> jsstring \<Rightarrow> byte list \<Rightarrow> env" where
  "sample_env code stderr artifact =
     \<lparr>prover = (\<lambda>fs. ((code, [], stderr), fs(PROOF_PATH \<mapsto> artifact))),
      writeFile_error = None,
      privateKeyToAccount = Inr (str ''0xA1''),
      getGasPrice = Inr (str ''7''),
      estimateGas = (\<lambda>hello from. Inr 50000),
      encodeABI = (\<lambda>hello. Inr (str ''0xd0'' @ hello)),
      sendTransaction = (\<lambda>txData. Inr (str ''0xe1'')),
      counter = Inr 6,
      verify_proof = (\<lambda>index message. Inr True)\<rparr>"

text \<open>The same with an artifact \<open>pf\<close> and a node that rejects the transaction.\<close>

definition sample_env_rejecting :: env where
  "sample_env_rejecting =
     (sample_env 0 [] [0x70, 0x66])
       \<lparr>sendTransaction := (\<lambda>txData. Inl (Web3Error (str ''rejected'')))\<rparr>"

definition sample_query :: "jsstring \<Rightarrow> string \<Rightarrow> qvalue" where
  "sample_query signature key =
     (if key = ''hello'' then QString (str ''hola'')
      else if key = ''helloSetter'' then QString (str ''0x18'')
      else if key = ''signature'' then QString signature
      else QUndefined)"

definition sample_env_hello :: env_hello where
  "sample_env_hello =
     \<lparr>getTransactionCount = Inr 3,
      encodeABI_relaySetHello = (\<lambda>hello helloSetter signature. Inr (str ''0xd1'')),
      signTransaction = (\<lambda>transaction. Inr (str ''0xf8'')),
      sendSignedTransaction = (\<lambda>raw. Inr (str ''0xe2''))\<rparr>"

section \<open>The commitment string\<close>

lemma str_eq_iff: "str a = str b \<longleftrightarrow> a = b"
proof -
  have "inj (\<lambda>c. of_nat (of_char c) :: 16 word)"
  proof (rule injI)
    fix c d :: char
    assume "(of_nat (of_char c) :: 16 word) = of_nat (of_char d)"
    then have "unat (of_nat (of_char c) :: 16 word) = unat (of_nat (of_char d) :: 16 word)"
      by simp
    moreover have "(of_char c :: nat) < 65536" "(of_char d :: nat) < 65536"
      using nat_of_char_less_256 [of c] nat_of_char_less_256 [of d] by linarith+
    ultimately have "(of_char c :: nat) = of_char d" by (simp add: unat_of_nat)
    then show "c = d" by simp
  qed
  then show ?thesis unfolding str_def by (simp add: inj_map_eq_map)
qed

subsection \<open>The block that crypto-js hashes, and the block of the empty message\<close>

text \<open>
  The 64 rounds of \<open>doProcessBlock\<close> are evaluated eight at a time, on the block that
  crypto-js builds for a \<^verbatim>\<open>Uint8Array\<close> and on the only block of the padded empty
  message.
\<close>

lemma message_schedule_numeral:
  "message_schedule (numeral n) W =
     message_schedule (pred_numeral n) ((gamma0 (W ! 14) + W ! 6 + gamma1 (W ! 1) + W ! 15) # W)"
  by (simp add: numeral_eq_Suc)

lemma message_schedule_typed_array:
  "message_schedule 48 (rev [0x80, 0, 0, 0, 0, 0, 0, 0, 0, 0, 0, 0, 0, 0, 0, 0])
     = rev [0x80, 0, 0, 0, 0, 0,
          0, 0, 0, 0, 0, 0,
          0, 0, 0, 0, 0x80, 0,
          0x00500000, 0, 0x00001422, 0, 0x08954005, 0x80,
          0x08000008, 0x00A00000, 0x00070500, 0x00003C66, 0x622001C2, 0x22550014,
          0x00C1F5D4, 0x28200039, 0xC4F0B085, 0x00235E28, 0x4EB3A330, 0x67F98D30,
          0xC842969D, 0x52EC77D9, 0x4A848DDB, 0x8B05EB3C, 0xDF7D0B89, 0x596FA773,
          0x4F9C2537, 0x78754829, 0xB7462566, 0x4F55D9B6, 0xD95447E1, 0x9ED1CD45,
          0x512907FA, 0xB0744CAC, 0x79BBEF8B, 0x566F2BAB, 0x46D13013, 0x39A963EB,
          0xBA2A6F8E, 0xC468B1A8, 0x0E4D56FB, 0x901D669E, 0xB7A0E424, 0x31DEFAC7,
          0x72C431BE, 0x7517A8D4, 0x28683D45, 0x8E06FCBD]"
  by (simp add: message_schedule_numeral gamma0_def gamma1_def)

lemma rounds_typed_array_1:
  "foldl sha_round
     [0x6A09E667, 0xBB67AE85, 0x3C6EF372, 0xA54FF53A,
      0x510E527F, 0x9B05688C, 0x1F83D9AB, 0x5BE0CD19]
     [(0x428A2F98, 0x80), (0x71374491, 0), (0xB5C0FBCF, 0), (0xE9B5DBA5, 0),
      (0x3956C25B, 0), (0x59F111F1, 0), (0x923F82A4, 0), (0xAB1C5ED5, 0)]
     = [0xF6AFC53F, 0x459E7FE3, 0x1F34E6C0, 0x92BBE16E,
        0xCDEFEA4B, 0xD3221233, 0x9F274F55, 0xBB64FB66]"
  by (simp add: Let_def)

lemma rounds_typed_array_2:
  "foldl sha_round
     [0xF6AFC53F, 0x459E7FE3, 0x1F34E6C0, 0x92BBE16E,
      0xCDEFEA4B, 0xD3221233, 0x9F274F55, 0xBB64FB66]
     [(0xD807AA98, 0), (0x12835B01, 0), (0x243185BE, 0), (0x550C7DC3, 0),
      (0x72BE5D74, 0), (0x80DEB1FE, 0), (0x9BDC06A7, 0), (0xC19BF174, 0)]
     = [0xB1E2BE2C, 0x3D2D409B, 0xB1CE38E1, 0x64386D95,
        0xA87CF77D, 0x47F5CC7B, 0x53AC634A, 0x259CF078]"
  by (simp add: Let_def)

lemma rounds_typed_array_3:
  "foldl sha_round
     [0xB1E2BE2C, 0x3D2D409B, 0xB1CE38E1, 0x64386D95,
      0xA87CF77D, 0x47F5CC7B, 0x53AC634A, 0x259CF078]
     [(0xE49B69C1, 0x80), (0xEFBE4786, 0), (0x0FC19DC6, 0x00500000), (0x240CA1CC, 0),
      (0x2DE92C6F, 0x00001422), (0x4A7484AA, 0), (0x5CB0A9DC, 0x08954005), (0x76F988DA, 0x80)]
     = [0x62872C0A, 0x4274FBDD, 0x999FC488, 0xB2FFF972,
        0xA8D6CE5B, 0xFACDE62F, 0x4801E3D5, 0x9153E4F5]"
  by (simp add: Let_def)

lemma rounds_typed_array_4:
  "foldl sha_round
     [0x62872C0A, 0x4274FBDD, 0x999FC488, 0xB2FFF972,
      0xA8D6CE5B, 0xFACDE62F, 0x4801E3D5, 0x9153E4F5]
     [(0x983E5152, 0x08000008), (0xA831C66D, 0x00A00000), (0xB00327C8, 0x00070500), (0xBF597FC7, 0x00003C66),
      (0xC6E00BF3, 0x622001C2), (0xD5A79147, 0x22550014), (0x06CA6351, 0x00C1F5D4), (0x14292967, 0x28200039)]
     = [0xDDEEC39D, 0x53C7A12A, 0x574CF66F, 0xAFD47163,
        0x9C61F76D, 0xA1DF018A, 0x570EB03E, 0xE103CABF]"
  by (simp add: Let_def)

lemma rounds_typed_array_5:
  "foldl sha_round
     [0xDDEEC39D, 0x53C7A12A, 0x574CF66F, 0xAFD47163,
      0x9C61F76D, 0xA1DF018A, 0x570EB03E, 0xE103CABF]
     [(0x27B70A85, 0xC4F0B085), (0x2E1B2138, 0x00235E28), (0x4D2C6DFC, 0x4EB3A330), (0x53380D13, 0x67F98D30),
      (0x650A7354, 0xC842969D), (0x766A0ABB, 0x52EC77D9), (0x81C2C92E, 0x4A848DDB), (0x92722C85, 0x8B05EB3C)]
     = [0xA218B593, 0xBB52D53F, 0xB2E9C773, 0x1C8C05E0,
        0xD2C82165, 0x87381A98, 0x220941DA, 0x900947E3]"
  by (simp add: Let_def)

lemma rounds_typed_array_6:
  "foldl sha_round
     [0xA218B593, 0xBB52D53F, 0xB2E9C773, 0x1C8C05E0,
      0xD2C82165, 0x87381A98, 0x220941DA, 0x900947E3]
     [(0xA2BFE8A1, 0xDF7D0B89), (0xA81A664B, 0x596FA773), (0xC24B8B70, 0x4F9C2537), (0xC76C51A3, 0x78754829),
      (0xD192E819, 0xB7462566), (0xD6990624, 0x4F55D9B6), (0xF40E3585, 0xD95447E1), (0x106AA070, 0x9ED1CD45)]
     = [0x9E63E396, 0x835B61C6, 0x2C22854E, 0x8A6C1EF2,
        0x23A07DE6, 0xD5E6BC8F, 0x86D09E3C, 0xACE7CDA0]"
  by (simp add: Let_def)

lemma rounds_typed_array_7:
  "foldl sha_round
     [0x9E63E396, 0x835B61C6, 0x2C22854E, 0x8A6C1EF2,
      0x23A07DE6, 0xD5E6BC8F, 0x86D09E3C, 0xACE7CDA0]
     [(0x19A4C116, 0x512907FA), (0x1E376C08, 0xB0744CAC), (0x2748774C, 0x79BBEF8B), (0x34B0BCB5, 0x566F2BAB),
      (0x391C0CB3, 0x46D13013), (0x4ED8AA4A, 0x39A963EB), (0x5B9CCA4F, 0xBA2A6F8E), (0x682E6FF3, 0xC468B1A8)]
     = [0xF6336A51, 0x4CD6A46A, 0x18C3FEA2, 0xB366EFB9,
        0x4E5EB353, 0x79E2C9B0, 0xD6D23A3F, 0x63DBD038]"
  by (simp add: Let_def)

lemma rounds_typed_array_8:
  "foldl sha_round
     [0xF6336A51, 0x4CD6A46A, 0x18C3FEA2, 0xB366EFB9,
      0x4E5EB353, 0x79E2C9B0, 0xD6D23A3F, 0x63DBD038]
     [(0x748F82EE, 0x0E4D56FB), (0x78A5636F, 0x901D669E), (0x84C87814, 0xB7A0E424), (0x8CC70208, 0x31DEFAC7),
      (0x90BEFFFA, 0x72C431BE), (0xA4506CEB, 0x7517A8D4), (0xBEF9A3F7, 0x28683D45), (0xC67178F2, 0x8E06FCBD)]
     = [0xE49BDEA1, 0xEAEEBFF1, 0xE7965086, 0x59607A9A,
        0x06692964, 0xFA445B75, 0x44B2D62F, 0x09F165F5]"
  by (simp add: Let_def)

lemma zip_typed_array:
  "zip K [0x80, 0, 0, 0, 0, 0,
         0, 0, 0, 0, 0, 0,
         0, 0, 0, 0, 0x80, 0,
         0x00500000, 0, 0x00001422, 0, 0x08954005, 0x80,
         0x08000008, 0x00A00000, 0x00070500, 0x00003C66, 0x622001C2, 0x22550014,
         0x00C1F5D4, 0x28200039, 0xC4F0B085, 0x00235E28, 0x4EB3A330, 0x67F98D30,
         0xC842969D, 0x52EC77D9, 0x4A848DDB, 0x8B05EB3C, 0xDF7D0B89, 0x596FA773,
         0x4F9C2537, 0x78754829, 0xB7462566, 0x4F55D9B6, 0xD95447E1, 0x9ED1CD45,
         0x512907FA, 0xB0744CAC, 0x79BBEF8B, 0x566F2BAB, 0x46D13013, 0x39A963EB,
         0xBA2A6F8E, 0xC468B1A8, 0x0E4D56FB, 0x901D669E, 0xB7A0E424, 0x31DEFAC7,
         0x72C431BE, 0x7517A8D4, 0x28683D45, 0x8E06FCBD]
     = [(0x428A2F98, 0x80), (0x71374491, 0), (0xB5C0FBCF, 0), (0xE9B5DBA5, 0),
        (0x3956C25B, 0), (0x59F111F1, 0), (0x923F82A4, 0), (0xAB1C5ED5, 0)]
     @ [(0xD807AA98, 0), (0x12835B01, 0), (0x243185BE, 0), (0x550C7DC3, 0),
        (0x72BE5D74, 0), (0x80DEB1FE, 0), (0x9BDC06A7, 0), (0xC19BF174, 0)]
     @ [(0xE49B69C1, 0x80), (0xEFBE4786, 0), (0x0FC19DC6, 0x00500000), (0x240CA1CC, 0),
        (0x2DE92C6F, 0x00001422), (0x4A7484AA, 0), (0x5CB0A9DC, 0x08954005), (0x76F988DA, 0x80)]
     @ [(0x983E5152, 0x08000008), (0xA831C66D, 0x00A00000), (0xB00327C8, 0x00070500), (0xBF597FC7, 0x00003C66),
        (0xC6E00BF3, 0x622001C2), (0xD5A79147, 0x22550014), (0x06CA6351, 0x00C1F5D4), (0x14292967, 0x28200039)]
     @ [(0x27B70A85, 0xC4F0B085), (0x2E1B2138, 0x00235E28), (0x4D2C6DFC, 0x4EB3A330), (0x53380D13, 0x67F98D30),
        (0x650A7354, 0xC842969D), (0x766A0ABB, 0x52EC77D9), (0x81C2C92E, 0x4A848DDB), (0x92722C85, 0x8B05EB3C)]
     @ [(0xA2BFE8A1, 0xDF7D0B89), (0xA81A664B, 0x596FA773), (0xC24B8B70, 0x4F9C2537), (0xC76C51A3, 0x78754829),
        (0xD192E819, 0xB7462566), (0xD6990624, 0x4F55D9B6), (0xF40E3585, 0xD95447E1), (0x106AA070, 0x9ED1CD45)]
     @ [(0x19A4C116, 0x512907FA), (0x1E376C08, 0xB0744CAC), (0x2748774C, 0x79BBEF8B), (0x34B0BCB5, 0x566F2BAB),
        (0x391C0CB3, 0x46D13013), (0x4ED8AA4A, 0x39A963EB), (0x5B9CCA4F, 0xBA2A6F8E), (0x682E6FF3, 0xC468B1A8)]
     @ [(0x748F82EE, 0x0E4D56FB), (0x78A5636F, 0x901D669E), (0x84C87814, 0xB7A0E424), (0x8CC70208, 0x31DEFAC7),
        (0x90BEFFFA, 0x72C431BE), (0xA4506CEB, 0x7517A8D4), (0xBEF9A3F7, 0x28683D45), (0xC67178F2, 0x8E06FCBD)]"
  by (simp add: K_def)

lemma doProcessBlock_typed_array:
  "doProcessBlock H_init [0x80, 0, 0, 0, 0, 0, 0, 0, 0, 0, 0, 0, 0, 0, 0, 0]
     = [0x4EA5C508, 0xA6566E76, 0x240543F8, 0xFEB06FD4,
        0x57777BE3, 0x9549C401, 0x6436AFDA, 0x65D2330E]"
proof -
  have "foldl sha_round H_init
          (zip K (rev (message_schedule 48 (rev [0x80, 0, 0, 0, 0, 0, 0, 0, 0, 0, 0, 0, 0, 0, 0, 0]))))
        = [0xE49BDEA1, 0xEAEEBFF1, 0xE7965086, 0x59607A9A,
           0x06692964, 0xFA445B75, 0x44B2D62F, 0x09F165F5]"
    unfolding message_schedule_typed_array rev_rev_ident zip_typed_array foldl_append
    unfolding H_init_def
      rounds_typed_array_1 rounds_typed_array_2 rounds_typed_array_3 rounds_typed_array_4
      rounds_typed_array_5 rounds_typed_array_6 rounds_typed_array_7 rounds_typed_array_8
    by (rule refl)
  then show ?thesis
    unfolding doProcessBlock_def by (simp add: H_init_def)
qed

lemma message_schedule_empty:
  "message_schedule 48 (rev [0x80000000, 0, 0, 0, 0, 0, 0, 0, 0, 0, 0, 0, 0, 0, 0, 0])
     = rev [0x80000000, 0, 0, 0, 0, 0,
          0, 0, 0, 0, 0, 0,
          0, 0, 0, 0, 0x80000000, 0,
          0x00205000, 0, 0x22000800, 0, 0x05089542, 0x80000000,
          0x58080000, 0x0040A000, 0x00162505, 0x66001800, 0xD6222580, 0x14225508,
          0xD645F95C, 0xC9282000, 0xC3F10094, 0x284CA766, 0x06886DC6, 0xA37BF116,
          0x717CBE96, 0xFEC2D74A, 0xA7B67F00, 0x811596A2, 0x98A6E768, 0x03B20C82,
          0x5D1DA7C9, 0xB156B935, 0xC3DDCA11, 0x249C107F, 0xC48D24EF, 0x5DE54C30,
          0xDEFECE65, 0x2CA1480D, 0x3C15332C, 0x01CEC9AD, 0x160CCCD0, 0x0BACDA98,
          0x361B8FE0, 0xD2320BA6, 0x029B7007, 0x7546587C, 0x07F54F39, 0xF808DDC3,
          0xDCCA7608, 0x5E427188, 0x44BCEC5D, 0x3B5EC49B]"
  by (simp add: message_schedule_numeral gamma0_def gamma1_def)

lemma rounds_empty_1:
  "foldl sha_round
     [0x6A09E667, 0xBB67AE85, 0x3C6EF372, 0xA54FF53A,
      0x510E527F, 0x9B05688C, 0x1F83D9AB, 0x5BE0CD19]
     [(0x428A2F98, 0x80000000), (0x71374491, 0), (0xB5C0FBCF, 0), (0xE9B5DBA5, 0),
      (0x3956C25B, 0), (0x59F111F1, 0), (0x923F82A4, 0), (0xAB1C5ED5, 0)]
     = [0x7AD5B1B6, 0xF0205590, 0x292E3B42, 0x4366F730,
        0x53F94DCB, 0x82EDE06F, 0x4F6540FA, 0xE7D0641E]"
  by (simp add: Let_def)

lemma rounds_empty_2:
  "foldl sha_round
     [0x7AD5B1B6, 0xF0205590, 0x292E3B42, 0x4366F730,
      0x53F94DCB, 0x82EDE06F, 0x4F6540FA, 0xE7D0641E]
     [(0xD807AA98, 0), (0x12835B01, 0), (0x243185BE, 0), (0x550C7DC3, 0),
      (0x72BE5D74, 0), (0x80DEB1FE, 0), (0x9BDC06A7, 0), (0xC19BF174, 0)]
     = [0xB40085B5, 0xB88AFDDB, 0x45C013A7, 0x2102D2CD,
        0x5CB8E863, 0x1CCFAC39, 0x2B427296, 0xCDFDFE52]"
  by (simp add: Let_def)

lemma rounds_empty_3:
  "foldl sha_round
     [0xB40085B5, 0xB88AFDDB, 0x45C013A7, 0x2102D2CD,
      0x5CB8E863, 0x1CCFAC39, 0x2B427296, 0xCDFDFE52]
     [(0xE49B69C1, 0x80000000), (0xEFBE4786, 0), (0x0FC19DC6, 0x00205000), (0x240CA1CC, 0),
      (0x2DE92C6F, 0x22000800), (0x4A7484AA, 0), (0x5CB0A9DC, 0x05089542), (0x76F988DA, 0x80000000)]
     = [0x985BED55, 0x404D8054, 0x99A6CB19, 0x75C7F0D8,
        0x2C2C028D, 0xB1653710, 0xC287981E, 0x39953CCD]"
  by (simp add: Let_def)

lemma rounds_empty_4:
  "foldl sha_round
     [0x985BED55, 0x404D8054, 0x99A6CB19, 0x75C7F0D8,
      0x2C2C028D, 0xB1653710, 0xC287981E, 0x39953CCD]
     [(0x983E5152, 0x58080000), (0xA831C66D, 0x0040A000), (0xB00327C8, 0x00162505), (0xBF597FC7, 0x66001800),
      (0xC6E00BF3, 0xD6222580), (0xD5A79147, 0x14225508), (0x06CA6351, 0xD645F95C), (0x14292967, 0xC9282000)]
     = [0x11E7025F, 0xA0BB0CDF, 0x72D3A00D, 0x64BC9E1C,
        0xBBD7846C, 0x564A6626, 0xB04AB22D, 0x95696B75]"
  by (simp add: Let_def)

lemma rounds_empty_5:
  "foldl sha_round
     [0x11E7025F, 0xA0BB0CDF, 0x72D3A00D, 0x64BC9E1C,
      0xBBD7846C, 0x564A6626, 0xB04AB22D, 0x95696B75]
     [(0x27B70A85, 0xC3F10094), (0x2E1B2138, 0x284CA766), (0x4D2C6DFC, 0x06886DC6), (0x53380D13, 0xA37BF116),
      (0x650A7354, 0x717CBE96), (0x766A0ABB, 0xFEC2D74A), (0x81C2C92E, 0xA7B67F00), (0x92722C85, 0x811596A2)]
     = [0x499911B1, 0x9E58E42F, 0x56E3DC4E, 0xA096535D,
        0x716BB025, 0x85A71424, 0xE807EA7F, 0xFAC06AED]"
  by (simp add: Let_def)

lemma rounds_empty_6:
  "foldl sha_round
     [0x499911B1, 0x9E58E42F, 0x56E3DC4E, 0xA096535D,
      0x716BB025, 0x85A71424, 0xE807EA7F, 0xFAC06AED]
     [(0xA2BFE8A1, 0x98A6E768), (0xA81A664B, 0x03B20C82), (0xC24B8B70, 0x5D1DA7C9), (0xC76C51A3, 0xB156B935),
      (0xD192E819, 0xC3DDCA11), (0xD6990624, 0x249C107F), (0xF40E3585, 0xC48D24EF), (0x106AA070, 0x5DE54C30)]
     = [0x365A34CD, 0x54982D6C, 0x32FA442B, 0xA40972D4,
        0xCBB3F8EB, 0x8A6A82B2, 0xD285C679, 0xAA2C1810]"
  by (simp add: Let_def)

lemma rounds_empty_7:
  "foldl sha_round
     [0x365A34CD, 0x54982D6C, 0x32FA442B, 0xA40972D4,
      0xCBB3F8EB, 0x8A6A82B2, 0xD285C679, 0xAA2C1810]
     [(0x19A4C116, 0xDEFECE65), (0x1E376C08, 0x2CA1480D), (0x2748774C, 0x3C15332C), (0x34B0BCB5, 0x01CEC9AD),
      (0x391C0CB3, 0x160CCCD0), (0x4ED8AA4A, 0x0BACDA98), (0x5B9CCA4F, 0x361B8FE0), (0x682E6FF3, 0xD2320BA6)]
     = [0x01638014, 0x2CAF58CA, 0x3A0E9477, 0xB1B29C90,
        0xADF94E0A, 0xE588E598, 0xFD99936E, 0x43A5DEF8]"
  by (simp add: Let_def)

lemma rounds_empty_8:
  "foldl sha_round
     [0x01638014, 0x2CAF58CA, 0x3A0E9477, 0xB1B29C90,
      0xADF94E0A, 0xE588E598, 0xFD99936E, 0x43A5DEF8]
     [(0x748F82EE, 0x029B7007), (0x78A5636F, 0x7546587C), (0x84C87814, 0x07F54F39), (0x8CC70208, 0xF808DDC3),
      (0x90BEFFFA, 0xDCCA7608), (0xA4506CEB, 0x5E427188), (0xBEF9A3F7, 0x44BCEC5D), (0xC67178F2, 0x3B5EC49B)]
     = [0x79A6DDDB, 0xDD946D8F, 0x5E8D0156, 0xF41FC3EA,
        0xD69FEF65, 0xC9962AC0, 0x8511BF70, 0x1C71EB3C]"
  by (simp add: Let_def)

lemma zip_empty:
  "zip K [0x80000000, 0, 0, 0, 0, 0,
         0, 0, 0, 0, 0, 0,
         0, 0, 0, 0, 0x80000000, 0,
         0x00205000, 0, 0x22000800, 0, 0x05089542, 0x80000000,
         0x58080000, 0x0040A000, 0x00162505, 0x66001800, 0xD6222580, 0x14225508,
         0xD645F95C, 0xC9282000, 0xC3F10094, 0x284CA766, 0x06886DC6, 0xA37BF116,
         0x717CBE96, 0xFEC2D74A, 0xA7B67F00, 0x811596A2, 0x98A6E768, 0x03B20C82,
         0x5D1DA7C9, 0xB156B935, 0xC3DDCA11, 0x249C107F, 0xC48D24EF, 0x5DE54C30,
         0xDEFECE65, 0x2CA1480D, 0x3C15332C, 0x01CEC9AD, 0x160CCCD0, 0x0BACDA98,
         0x361B8FE0, 0xD2320BA6, 0x029B7007, 0x7546587C, 0x07F54F39, 0xF808DDC3,
         0xDCCA7608, 0x5E427188, 0x44BCEC5D, 0x3B5EC49B]
     = [(0x428A2F98, 0x80000000), (0x71374491, 0), (0xB5C0FBCF, 0), (0xE9B5DBA5, 0),
        (0x3956C25B, 0), (0x59F111F1, 0), (0x923F82A4, 0), (0xAB1C5ED5, 0)]
     @ [(0xD807AA98, 0), (0x12835B01, 0), (0x243185BE, 0), (0x550C7DC3, 0),
        (0x72BE5D74, 0), (0x80DEB1FE, 0), (0x9BDC06A7, 0), (0xC19BF174, 0)]
     @ [(0xE49B69C1, 0x80000000), (0xEFBE4786, 0), (0x0FC19DC6, 0x00205000), (0x240CA1CC, 0),
        (0x2DE92C6F, 0x22000800), (0x4A7484AA, 0), (0x5CB0A9DC, 0x05089542), (0x76F988DA, 0x80000000)]
     @ [(0x983E5152, 0x58080000), (0xA831C66D, 0x0040A000), (0xB00327C8, 0x00162505), (0xBF597FC7, 0x66001800),
        (0xC6E00BF3, 0xD6222580), (0xD5A79147, 0x14225508), (0x06CA6351, 0xD645F95C), (0x14292967, 0xC9282000)]
     @ [(0x27B70A85, 0xC3F10094), (0x2E1B2138, 0x284CA766), (0x4D2C6DFC, 0x06886DC6), (0x53380D13, 0xA37BF116),
        (0x650A7354, 0x717CBE96), (0x766A0ABB, 0xFEC2D74A), (0x81C2C92E, 0xA7B67F00), (0x92722C85, 0x811596A2)]
     @ [(0xA2BFE8A1, 0x98A6E768), (0xA81A664B, 0x03B20C82), (0xC24B8B70, 0x5D1DA7C9), (0xC76C51A3, 0xB156B935),
        (0xD192E819, 0xC3DDCA11), (0xD6990624, 0x249C107F), (0xF40E3585, 0xC48D24EF), (0x106AA070, 0x5DE54C30)]
     @ [(0x19A4C116, 0xDEFECE65), (0x1E376C08, 0x2CA1480D), (0x2748774C, 0x3C15332C), (0x34B0BCB5, 0x01CEC9AD),
        (0x391C0CB3, 0x160CCCD0), (0x4ED8AA4A, 0x0BACDA98), (0x5B9CCA4F, 0x361B8FE0), (0x682E6FF3, 0xD2320BA6)]
     @ [(0x748F82EE, 0x029B7007), (0x78A5636F, 0x7546587C), (0x84C87814, 0x07F54F39), (0x8CC70208, 0xF808DDC3),
        (0x90BEFFFA, 0xDCCA7608), (0xA4506CEB, 0x5E427188), (0xBEF9A3F7, 0x44BCEC5D), (0xC67178F2, 0x3B5EC49B)]"
  by (simp add: K_def)

lemma doProcessBlock_empty:
  "doProcessBlock H_init [0x80000000, 0, 0, 0, 0, 0, 0, 0, 0, 0, 0, 0, 0, 0, 0, 0]
     = [0xE3B0C442, 0x98FC1C14, 0x9AFBF4C8, 0x996FB924,
        0x27AE41E4, 0x649B934C, 0xA495991B, 0x7852B855]"
proof -
  have "foldl sha_round H_init
          (zip K (rev (message_schedule 48 (rev [0x80000000, 0, 0, 0, 0, 0, 0, 0, 0, 0, 0, 0, 0, 0, 0, 0]))))
        = [0x79A6DDDB, 0xDD946D8F, 0x5E8D0156, 0xF41FC3EA,
           0xD69FEF65, 0xC9962AC0, 0x8511BF70, 0x1C71EB3C]"
    unfolding message_schedule_empty rev_rev_ident zip_empty foldl_append
    unfolding H_init_def
      rounds_empty_1 rounds_empty_2 rounds_empty_3 rounds_empty_4
      rounds_empty_5 rounds_empty_6 rounds_empty_7 rounds_empty_8
    by (rule refl)
  then show ?thesis
    unfolding doProcessBlock_def by (simp add: H_init_def)
qed

lemma replicate_15: "replicate 15 x = [x, x, x, x, x, x, x, x, x, x, x, x, x, x, x]"
  by (simp add: numeral_eq_Suc)

lemma cryptojs_SHA256_eq:
  "cryptojs_SHA256 typedArray
     = [0x4E, 0xA5, 0xC5, 0x08, 0xA6, 0x56, 0x6E, 0x76,
      0x24, 0x05, 0x43, 0xF8, 0xFE, 0xB0, 0x6F, 0xD4,
      0x57, 0x77, 0x7B, 0xE3, 0x95, 0x49, 0xC4, 0x01,
      0x64, 0x36, 0xAF, 0xDA, 0x65, 0xD2, 0x33, 0x0E]"
  by (simp add: cryptojs_SHA256_def replicate_15 doProcessBlock_typed_array word_bytes_def)

lemma replicate_55:
  "replicate 55 (0 :: byte)
     = [0, 0, 0, 0, 0, 0, 0, 0, 0, 0, 0, 0, 0, 0, 0, 0,
       0, 0, 0, 0, 0, 0, 0, 0, 0, 0, 0, 0, 0, 0, 0, 0,
       0, 0, 0, 0, 0, 0, 0, 0, 0, 0, 0, 0, 0, 0, 0, 0,
       0, 0, 0, 0, 0, 0, 0]"
  by (simp add: numeral_eq_Suc)

lemma sha256_padding_Nil:
  "sha256_padding []
     = 0x80 # [0, 0, 0, 0, 0, 0, 0, 0, 0, 0, 0, 0, 0, 0, 0, 0,
              0, 0, 0, 0, 0, 0, 0, 0, 0, 0, 0, 0, 0, 0, 0, 0,
              0, 0, 0, 0, 0, 0, 0, 0, 0, 0, 0, 0, 0, 0, 0, 0,
              0, 0, 0, 0, 0, 0, 0, 0, 0, 0, 0, 0, 0, 0, 0]"
  by (simp add: sha256_padding_def replicate_55)

lemma words_of_padding_Nil:
  "words_of_bytes (sha256_padding []) = [0x80000000, 0, 0, 0, 0, 0, 0, 0, 0, 0, 0, 0, 0, 0, 0, 0]"
  by (simp add: sha256_padding_Nil)

lemma sha256_Nil:
  "sha256 []
     = [0xE3, 0xB0, 0xC4, 0x42, 0x98, 0xFC, 0x1C, 0x14,
      0x9A, 0xFB, 0xF4, 0xC8, 0x99, 0x6F, 0xB9, 0x24,
      0x27, 0xAE, 0x41, 0xE4, 0x64, 0x9B, 0x93, 0x4C,
      0xA4, 0x95, 0x99, 0x1B, 0x78, 0x52, 0xB8, 0x55]"
  by (simp add: sha256_def words_of_padding_Nil doProcessBlock_empty word_bytes_def)

text \<open>
  C8. \<open>hashMessage\<close> is a total function of its string and fails on no input, and what
  it returns has the fixed form: \<open>0x\<close> and 64 hexadecimal digits. But the digits do
  not depend on the input. crypto-js is handed a \<^verbatim>\<open>Uint8Array\<close>, of which it reads no
  byte, and the commitment of every message is the one string below. On the empty
  input the claim asks for the hash of zero bytes, which is \<open>0xe3b0\<dots>b855\<close>; the code
  returns \<open>0x4ea5\<dots>330e\<close>.
\<close>

theorem hashMessage_empty_input:
  "hashMessage cryptojs_SHA256 message
     = str ''0x4ea5c508a6566e76240543f8feb06fd457777be39549c4016436afda65d2330e''
   \<and> str (''0x'' @ hex_stringify (sha256 []))
     = str ''0xe3b0c44298fc1c149afbf4c8996fb92427ae41e4649b934ca495991b7852b855''
   \<and> hashMessage cryptojs_SHA256 [] \<noteq> str (''0x'' @ hex_stringify (sha256 []))"
proof -
  have c: "hashMessage cryptojs_SHA256 m
     = str ''0x4ea5c508a6566e76240543f8feb06fd457777be39549c4016436afda65d2330e''" for m
    by (simp add: hashMessage_def cryptojs_SHA256_eq hex_stringify_def hex_digit_def)
  have z: "hex_stringify (sha256 [])
     = ''e3b0c44298fc1c149afbf4c8996fb92427ae41e4649b934ca495991b7852b855''"
    by (simp add: sha256_Nil hex_stringify_def hex_digit_def)
  show ?thesis unfolding c z by (simp add: str_eq_iff)
qed

section \<open>What is hashed: the text of the artifact\<close>



























subsection \<open>The decoder yields well-formed strings only\<close>























text \<open>
  \<^verbatim>\<open>hashMessage\<close> uses the text of the artifact in one place: \<^verbatim>\<open>utf8ToBytes\<close> of it is
  the argument of \<^verbatim>\<open>SHA256\<close>.
\<close>

lemma hashMessage_digest_input:
  "hashMessage SHA256 (bufferToString buf)
     = str (''0x'' @ hex_stringify (SHA256 (utf8ToBytes (bufferToString buf))))"
  by (simp add: hashMessage_def)




section \<open>What a request calls and returns\<close>

lemmas case_congs = option.case_cong prod.case_cong sum.case_cong if_cong

lemma invoke_simps [simp]:
  "calls (invoke c w) = calls w @ [c]"
  "files (invoke c w) = files w"
  "console (invoke c w) = console w"
  "defaultAccount (invoke c w) = defaultAccount w"
  by (simp_all add: invoke_def)

lemma console_log_simps [simp]:
  "calls (console_log x w) = calls w"
  "files (console_log x w) = files w"
  "console (console_log x w) = console w @ [x]"
  "defaultAccount (console_log x w) = defaultAccount w"
  by (simp_all add: console_log_def)

lemma calls_relaySetProof:
  "calls (relaySetProof env hello w) = calls w @ relaySetProof_calls env hello"
  by (simp add: relaySetProof_def relaySetProof_calls_def Let_def split: sum.splits)

lemma files_relaySetProof: "files (relaySetProof env hello w) = files w"
  by (simp add: relaySetProof_def Let_def split: sum.splits)

lemma calls_verifyProof:
  "calls (verifyProof SHA256 env w) = calls w @ verifyProof_calls SHA256 env (files w PROOF_PATH)"
  by (simp add: verifyProof_def verifyProof_calls_def readFileSync_def Let_def
      split: sum.splits option.splits)

lemma files_verifyProof: "files (verifyProof SHA256 env w) = files w"
  by (simp add: verifyProof_def readFileSync_def Let_def split: sum.splits option.splits)

lemma test_txt_neq: "PROOF_PATH \<noteq> ''test.txt''"
  by (simp add: PROOF_PATH_def)

lemma calls_after_exec:
  "calls (snd (verified_chain_after_exec SHA256 env query (Inr (stdout, stderr)) w))
     = calls w @ after_exec_calls SHA256 env query (files w PROOF_PATH)"
  by (simp add: verified_chain_after_exec_def proof_after_exec_def after_exec_calls_def
      readFileSync_def writeFileSync_def Let_def calls_relaySetProof calls_verifyProof
      files_relaySetProof test_txt_neq
      split: sum.splits option.splits prod.splits)

lemma fst_after_exec:
  "fst (verified_chain_after_exec SHA256 env query (Inr (stdout, stderr)) w)
     = (case files w PROOF_PATH of
          None \<Rightarrow> Inl (FsError PROOF_PATH)
        | Some buf \<Rightarrow> (case writeFile_error env of Some e \<Rightarrow> Inl e | None \<Rightarrow> Inr ()))"
  by (simp add: verified_chain_after_exec_def proof_after_exec_def
      readFileSync_def writeFileSync_def Let_def
      split: sum.splits option.splits prod.splits)

lemma files_after_exec:
  "files (snd (verified_chain_after_exec SHA256 env query (Inr (stdout, stderr)) w))
     = (case files w PROOF_PATH of
          None \<Rightarrow> files w
        | Some buf \<Rightarrow>
            (case writeFile_error env of
               Some e \<Rightarrow> files w
             | None \<Rightarrow> (files w)(''test.txt'' \<mapsto> utf8_encode (bufferToString buf))))"
  by (simp add: verified_chain_after_exec_def proof_after_exec_def
      readFileSync_def writeFileSync_def Let_def files_relaySetProof files_verifyProof
      split: sum.splits option.splits prod.splits)

lemma after_exec_Inl:
  "verified_chain_after_exec SHA256 env query (Inl e) w = (Inl e, w)"
  by (simp add: verified_chain_after_exec_def)

lemma verified_chain_split:
  "verified_chain SHA256 env query w =
     (case exec env PROVE_COMMAND w of
        (r, w1) \<Rightarrow> verified_chain_after_exec SHA256 env query r w1)"
  by (simp add: verified_chain_def verified_chain_after_exec_def proof_js_def Let_def
      split: prod.splits sum.splits)

lemma exec_eq:
  "exec env cmd w =
     (case fst (prover env (files w)) of
        (code, stdout, stderr) \<Rightarrow>
          if code = 0 then Inr (stdout, stderr) else Inl (ExecError code stdout stderr),
      (invoke (Exec cmd) w)\<lparr>files := snd (prover env (files w))\<rparr>)"
  by (simp add: exec_def split: prod.splits)

lemma calls_verified_chain:
  "calls (snd (verified_chain SHA256 env query w))
     = calls w @ Exec PROVE_COMMAND
         # (if fst (fst (prover env (files w))) = 0
            then after_exec_calls SHA256 env query (snd (prover env (files w)) PROOF_PATH)
            else [])"
  by (simp add: verified_chain_split exec_eq calls_after_exec after_exec_Inl
      split: prod.splits)

lemma fst_verified_chain:
  "fst (verified_chain SHA256 env query w)
     = (case fst (prover env (files w)) of
          (code, stdout, stderr) \<Rightarrow>
            if code = 0 then
              (case snd (prover env (files w)) PROOF_PATH of
                 None \<Rightarrow> Inl (FsError PROOF_PATH)
               | Some buf \<Rightarrow> (case writeFile_error env of Some e \<Rightarrow> Inl e | None \<Rightarrow> Inr ()))
            else Inl (ExecError code stdout stderr))"
  by (simp add: verified_chain_split exec_eq fst_after_exec after_exec_Inl
      split: prod.splits)

lemma files_verified_chain:
  "files (snd (verified_chain SHA256 env query w))
     = (if fst (fst (prover env (files w))) = 0 then
          (case snd (prover env (files w)) PROOF_PATH of
             None \<Rightarrow> snd (prover env (files w))
           | Some buf \<Rightarrow>
               (case writeFile_error env of
                  Some e \<Rightarrow> snd (prover env (files w))
                | None \<Rightarrow>
                    (snd (prover env (files w)))
                      (''test.txt'' \<mapsto> utf8_encode (bufferToString buf))))
        else snd (prover env (files w)))"
  by (simp add: verified_chain_split exec_eq files_after_exec after_exec_Inl
      split: prod.splits option.splits)

lemma calls_since_append: "calls w' = calls w @ cs \<Longrightarrow> calls_since w w' = cs"
  by (simp add: calls_since_def)

lemma calls_since_verified_chain:
  "calls_since w (snd (verified_chain SHA256 env query w))
     = Exec PROVE_COMMAND
         # (if fst (fst (prover env (files w))) = 0
            then after_exec_calls SHA256 env query (snd (prover env (files w)) PROOF_PATH)
            else [])"
  by (rule calls_since_append) (simp add: calls_verified_chain)

lemma console_relaySetProof:
  "console (relaySetProof env hello w) = console w @ relaySetProof_logs env hello"
  by (simp add: relaySetProof_def relaySetProof_logs_def Let_def split: sum.splits)

lemma console_verifyProof:
  "console (verifyProof SHA256 env w) = console w @ verifyProof_logs SHA256 env (files w PROOF_PATH)"
  by (simp add: verifyProof_def verifyProof_logs_def readFileSync_def Let_def
      split: sum.splits option.splits)

lemma console_after_exec:
  "console (snd (verified_chain_after_exec SHA256 env query (Inr (stdout, stderr)) w))
     = console w @ after_exec_logs SHA256 env query stdout stderr (files w PROOF_PATH)"
  by (simp add: verified_chain_after_exec_def proof_after_exec_def after_exec_logs_def
      readFileSync_def writeFileSync_def Let_def console_relaySetProof console_verifyProof
      files_relaySetProof test_txt_neq
      split: sum.splits option.splits prod.splits)

lemma console_verified_chain:
  "console (snd (verified_chain SHA256 env query w))
     = console w
       @ (case fst (prover env (files w)) of
            (code, stdout, stderr) \<Rightarrow>
              if code = 0
              then after_exec_logs SHA256 env query stdout stderr
                     (snd (prover env (files w)) PROOF_PATH)
              else [])"
  by (simp add: verified_chain_split exec_eq console_after_exec after_exec_Inl
      split: prod.splits)

lemma console_since_verified_chain:
  "console_since w (snd (verified_chain SHA256 env query w))
     = (case fst (prover env (files w)) of
            (code, stdout, stderr) \<Rightarrow>
              if code = 0
              then after_exec_logs SHA256 env query stdout stderr
                     (snd (prover env (files w)) PROOF_PATH)
              else [])"
  by (simp add: console_since_def console_verified_chain)

lemma defaultAccount_relaySetProof:
  "defaultAccount (relaySetProof env hello w)
     = (case privateKeyToAccount env of Inl e \<Rightarrow> defaultAccount w | Inr a \<Rightarrow> Some a)"
  by (simp add: relaySetProof_def Let_def split: sum.splits)

lemma defaultAccount_verifyProof:
  "defaultAccount (verifyProof SHA256 env w)
     = (case privateKeyToAccount env of Inl e \<Rightarrow> defaultAccount w | Inr a \<Rightarrow> Some a)"
  by (simp add: verifyProof_def readFileSync_def Let_def split: sum.splits option.splits)

lemma defaultAccount_after_exec:
  "defaultAccount (snd (verified_chain_after_exec SHA256 env query (Inr (stdout, stderr)) w))
     = (case files w PROOF_PATH of
          None \<Rightarrow> defaultAccount w
        | Some buf \<Rightarrow>
            (case writeFile_error env of
               Some e \<Rightarrow> defaultAccount w
             | None \<Rightarrow>
                (case privateKeyToAccount env of Inl e \<Rightarrow> defaultAccount w | Inr a \<Rightarrow> Some a)))"
  by (simp add: verified_chain_after_exec_def proof_after_exec_def
      readFileSync_def writeFileSync_def Let_def defaultAccount_relaySetProof
      defaultAccount_verifyProof
      split: sum.splits option.splits prod.splits)

lemma defaultAccount_verified_chain:
  "defaultAccount (snd (verified_chain SHA256 env query w))
     = (if fst (fst (prover env (files w))) = 0 then
          (case snd (prover env (files w)) PROOF_PATH of
             None \<Rightarrow> defaultAccount w
           | Some buf \<Rightarrow>
               (case writeFile_error env of
                  Some e \<Rightarrow> defaultAccount w
                | None \<Rightarrow>
                   (case privateKeyToAccount env of
                      Inl e \<Rightarrow> defaultAccount w
                    | Inr a \<Rightarrow> Some a)))
        else defaultAccount w)"
  by (simp add: verified_chain_split exec_eq defaultAccount_after_exec after_exec_Inl
      split: prod.splits option.splits sum.splits)






lemma reaches_Done_alt:
  "reaches_Done SHA256 env query w =
     (fst (verified_chain SHA256 env query w) = Inr ()
      \<and> list_ex is_LogReceipt (console_since w (snd (verified_chain SHA256 env query w)))
      \<and> list_ex is_LogVerified (console_since w (snd (verified_chain SHA256 env query w))))"
  by (simp add: reaches_Done_def split: prod.splits)

lemma handler_calls_eq:
  "handler_calls SHA256 env query w
     = Exec PROVE_COMMAND
         # (if fst (fst (prover env (files w))) = 0
            then after_exec_calls SHA256 env query (snd (prover env (files w)) PROOF_PATH)
            else [])"
  by (simp add: handler_calls_def calls_since_verified_chain)

lemma commitments_simps [simp]:
  "commitments [] = []"
  "commitments (c # cs)
     = (case commitment_of c of None \<Rightarrow> commitments cs | Some x \<Rightarrow> x # commitments cs)"
  "commitments (xs @ ys) = commitments xs @ commitments ys"
  by (simp_all add: commitments_def map_filter_def split: option.splits)

lemma transactions_simps [simp]:
  "transactions [] = []"
  "transactions (c # cs)
     = (case transaction_of c of None \<Rightarrow> transactions cs | Some x \<Rightarrow> x # transactions cs)"
  "transactions (xs @ ys) = transactions xs @ transactions ys"
  by (simp_all add: transactions_def map_filter_def split: option.splits)

lemma to_double_small: "n < 2 ^ 53 \<Longrightarrow> to_double n = n"
  by (simp add: to_double_def)

lemma js_minus_one_exact: "n < 2 ^ 53 \<Longrightarrow> js_minus_one n = int n - 1"
  by (cases "n = 0") (simp_all add: js_minus_one_def to_double_small Let_def)

lemma bufferToString_pf: "bufferToString [0x70, 0x66] = str ''pf''"
  by (simp add: bufferToString_def lead_byte_def str_def)

lemma sample_message:
  "verified_chain_message (sample_query s) = str ''0x18 setted hello to  hola''"
  by (simp add: verified_chain_message_def sample_query_def str_def)

section \<open>A prover that fails\<close>

text \<open>
  C2. When the prover process exits with a non-zero code, the handler ends with the
  error of \<open>exec\<close> (the exit code and the captured stderr): the request fails at the
  proving stage. The only call the request has made is the \<open>exec\<close> itself: no call
  reaches the chain client, and no transaction is built or submitted.
\<close>

theorem prover_failure_contained:
  assumes "fst (prover env (files w)) = (code, stdout, stderr)" and "code \<noteq> 0"
  shows "fst (verified_chain SHA256 env query w) = Inl (ExecError code stdout stderr)
       \<and> handler_calls SHA256 env query w = [Exec PROVE_COMMAND]
       \<and> filter is_chain_call (handler_calls SHA256 env query w) = []
       \<and> length (transactions (handler_calls SHA256 env query w)) = 0"
  using assms by (simp add: fst_verified_chain handler_calls_eq)

theorem prover_failure_contained_witness:
  "fst (prover (sample_env 1 (str ''setup failed'') []) (files world0))
     = (1, [], str ''setup failed'')
   \<and> fst (verified_chain pad32 (sample_env 1 (str ''setup failed'') []) (sample_query []) world0)
     = Inl (ExecError 1 [] (str ''setup failed''))
   \<and> handler_calls pad32 (sample_env 1 (str ''setup failed'') []) (sample_query []) world0
     = [Exec PROVE_COMMAND]"
proof -
  have h: "fst (prover (sample_env 1 (str ''setup failed'') []) (files world0))
             = (1, [], str ''setup failed'')"
    by (simp add: sample_env_def)
  from prover_failure_contained [OF h, of pad32 "sample_query []"] h show ?thesis by simp
qed

section \<open>Errors of the collaborators\<close>

lemma ResSend_relaySetProof_calls: "filter is_ResSend (relaySetProof_calls env hello) = []"
  by (simp add: relaySetProof_calls_def split: sum.splits)

lemma ResSend_verifyProof_calls: "filter is_ResSend (verifyProof_calls SHA256 env artifact) = []"
  by (simp add: verifyProof_calls_def split: sum.splits option.splits)

lemma count_relaySetProof_calls:
  "count_list (relaySetProof_calls env hello) PrivateKeyToAccount = 1"
  by (simp add: relaySetProof_calls_def split: sum.splits)

lemma count_verifyProof_calls:
  "count_list (verifyProof_calls SHA256 env artifact) PrivateKeyToAccount = 1"
  by (simp add: verifyProof_calls_def split: sum.splits option.splits)

text \<open>
  C3 as stated fails. The node rejects the transaction: \<^verbatim>\<open>relaySetProof\<close> catches the
  error and logs it, \<^verbatim>\<open>verifyProof\<close> runs all the same and calls \<^verbatim>\<open>verify_proof\<close>,
  the handler returns normally and sends the usual message with status 200. The error
  appears in the log only.
\<close>

theorem submission_error_hidden:
  "fst (verified_chain pad32 sample_env_rejecting (sample_query (str ''0x69'')) world0) = Inr ()
   \<and> handler_calls pad32 sample_env_rejecting (sample_query (str ''0x69'')) world0
     = [Exec PROVE_COMMAND, ReadFileSync PROOF_PATH, WriteFileSync ''test.txt'' (str ''pf''),
        PrivateKeyToAccount, WalletAdd (str ''0xA1''),
        Create_proof (hashMessage pad32 (str ''pf'')), GetGasPrice,
        EstimateGas (hashMessage pad32 (str ''pf'')) (str ''0xA1''),
        EncodeABI (hashMessage pad32 (str ''pf'')),
        SendTransaction
          [(''to'', JStr CONTRACT_ADDRESS),
           (''data'', JStr (str ''0xd0'' @ hashMessage pad32 (str ''pf''))),
           (''gas'', JNum 50000), (''gasPrice'', JStr (str ''7''))],
        PrivateKeyToAccount, WalletAdd (str ''0xA1''), Counter, ReadFileSync PROOF_PATH,
        Verify_proof 5 (hashMessage pad32 (str ''pf'')),
        ResSend 200 (str ''0x18 setted hello to  hola'')]
   \<and> console (snd (verified_chain pad32 sample_env_rejecting (sample_query (str ''0x69'')) world0))
     = [LogOutput [] [] (QString (str ''hola'')) (QString (str ''0x18'')) (QString (str ''0x69'')),
        LogString (hashMessage pad32 (str ''pf'')), LogAccount (str ''0xA1''),
        LogString (str ''0xA1''), LogError (Web3Error (str ''rejected'')), LogVerified True]"
  apply (intro conjI)
  subgoal by (simp add: fst_verified_chain sample_env_rejecting_def sample_env_def world0_def)
  subgoal
    by (simp add: handler_calls_eq sample_env_rejecting_def sample_env_def world0_def
        after_exec_calls_def relaySetProof_calls_def verifyProof_calls_def bufferToString_pf
        sample_message js_minus_one_exact)
  subgoal
    by (simp add: console_verified_chain sample_env_rejecting_def sample_env_def world0_def
        after_exec_logs_def relaySetProof_logs_def verifyProof_logs_def bufferToString_pf
        sample_query_def js_minus_one_exact)
  done

text \<open>
  C3, amended. An error that leaves \<^verbatim>\<open>proof\<close> ends the request: when the prover
  exits with a non-zero code, the artifact cannot be read or \<^verbatim>\<open>test.txt\<close> cannot be
  written, the handler rejects, no call goes to the chain client and the handler sends
  no response. Every other error is raised inside \<^verbatim>\<open>relaySetProof\<close> or
  \<^verbatim>\<open>verifyProof\<close>, which catch and log it: the handler returns normally, both
  functions have run (each starts with \<^verbatim>\<open>privateKeyToAccount\<close>), and the one response
  is the message with status 200, sent last.
\<close>

theorem errors_rejected_or_logged:
  "(fst (fst (prover env (files w))) \<noteq> 0 \<or> snd (prover env (files w)) PROOF_PATH = None
      \<or> writeFile_error env \<noteq> None
    \<longrightarrow> isl (fst (verified_chain SHA256 env query w))
        \<and> filter is_chain_call (handler_calls SHA256 env query w) = []
        \<and> filter is_ResSend (handler_calls SHA256 env query w) = [])
   \<and> (fst (fst (prover env (files w))) = 0 \<and> snd (prover env (files w)) PROOF_PATH \<noteq> None
      \<and> writeFile_error env = None
    \<longrightarrow> fst (verified_chain SHA256 env query w) = Inr ()
        \<and> filter is_ResSend (handler_calls SHA256 env query w)
            = [ResSend 200 (verified_chain_message query)]
        \<and> last (handler_calls SHA256 env query w) = ResSend 200 (verified_chain_message query)
        \<and> count_list (handler_calls SHA256 env query w) PrivateKeyToAccount = 2)"
  by (auto simp add: fst_verified_chain handler_calls_eq after_exec_calls_def
      ResSend_relaySetProof_calls ResSend_verifyProof_calls count_relaySetProof_calls
      count_verifyProof_calls
      split: prod.splits option.splits)

theorem errors_rejected_or_logged_witness:
  "snd (prover (sample_env 0 [] []) (files world0)) PROOF_PATH \<noteq> None
   \<and> writeFile_error ((sample_env 0 [] [])\<lparr>writeFile_error := Some (FsError ''test.txt'')\<rparr>)
       \<noteq> None
   \<and> isl (fst (verified_chain pad32
                ((sample_env 0 [] [])\<lparr>writeFile_error := Some (FsError ''test.txt'')\<rparr>)
                (sample_query []) world0))
   \<and> filter is_ResSend
        (handler_calls pad32
           ((sample_env 0 [] [])\<lparr>writeFile_error := Some (FsError ''test.txt'')\<rparr>)
           (sample_query []) world0) = []
   \<and> fst (fst (prover sample_env_rejecting (files world0))) = 0
   \<and> snd (prover sample_env_rejecting (files world0)) PROOF_PATH \<noteq> None
   \<and> writeFile_error sample_env_rejecting = None
   \<and> fst (verified_chain pad32 sample_env_rejecting (sample_query []) world0) = Inr ()
   \<and> filter is_ResSend (handler_calls pad32 sample_env_rejecting (sample_query []) world0)
       = [ResSend 200 (verified_chain_message (sample_query []))]
   \<and> count_list (handler_calls pad32 sample_env_rejecting (sample_query []) world0)
        PrivateKeyToAccount = 2"
proof -
  have a: "snd (prover (sample_env 0 [] []) (files world0)) PROOF_PATH \<noteq> None"
    "writeFile_error ((sample_env 0 [] [])\<lparr>writeFile_error := Some (FsError ''test.txt'')\<rparr>)
       \<noteq> None"
    by (simp_all add: sample_env_def)
  have b: "fst (fst (prover sample_env_rejecting (files world0))) = 0"
    "snd (prover sample_env_rejecting (files world0)) PROOF_PATH \<noteq> None"
    "writeFile_error sample_env_rejecting = None"
    by (simp_all add: sample_env_rejecting_def sample_env_def)
  from errors_rejected_or_logged
      [of "(sample_env 0 [] [])\<lparr>writeFile_error := Some (FsError ''test.txt'')\<rparr>" world0
          pad32 "sample_query []"]
    errors_rejected_or_logged [of sample_env_rejecting world0 pad32 "sample_query []"] a b
  show ?thesis by blast
qed

section \<open>The round trip\<close>

lemma reaches_Done_D:
  assumes "reaches_Done SHA256 env query w"
  shows "\<exists>stdout stderr artifact account gasPrice gasCost1 dataTx receipt weiCounter result.
           fst (prover env (files w)) = (0, stdout, stderr)
         \<and> snd (prover env (files w)) PROOF_PATH = Some artifact
         \<and> writeFile_error env = None
         \<and> privateKeyToAccount env = Inr account
         \<and> getGasPrice env = Inr gasPrice
         \<and> estimateGas env (hashMessage SHA256 (bufferToString artifact)) account = Inr gasCost1
         \<and> encodeABI env (hashMessage SHA256 (bufferToString artifact)) = Inr dataTx
         \<and> sendTransaction env
              [(''to'', JStr CONTRACT_ADDRESS), (''data'', JStr dataTx),
               (''gas'', JNum gasCost1), (''gasPrice'', JStr gasPrice)] = Inr receipt
         \<and> counter env = Inr weiCounter
         \<and> verify_proof env (js_minus_one weiCounter)
              (hashMessage SHA256 (bufferToString artifact)) = Inr result"
  using assms
  by (auto simp add: reaches_Done_alt fst_verified_chain console_since_verified_chain
      after_exec_logs_def relaySetProof_logs_def verifyProof_logs_def
      split: prod.splits option.splits sum.splits if_splits)

text \<open>
  C1. In a request that completes the pipeline, the prover has left an artifact and the
  counter has been read. Exactly two calls carry a commitment: \<^verbatim>\<open>create_proof\<close> and,
  after it, \<^verbatim>\<open>verify_proof\<close>, both with the hash of that artifact. The counter is
  read once, after the one transaction was sent, and the index given to
  \<^verbatim>\<open>verify_proof\<close> is \<^verbatim>\<open>weiCounter - 1\<close> as JavaScript computes it, which is the
  integer below the counter for every counter up to \<open>2\<^sup>5\<^sup>3\<close>.
\<close>

theorem round_trip:
  assumes "reaches_Done SHA256 env query w"
  shows "\<exists>artifact weiCounter txData.
           snd (prover env (files w)) PROOF_PATH = Some artifact
         \<and> counter env = Inr weiCounter
         \<and> filter (\<lambda>c. commitment_of c \<noteq> None) (handler_calls SHA256 env query w)
             = [Create_proof (hashMessage SHA256 (bufferToString artifact)),
                Verify_proof (js_minus_one weiCounter)
                  (hashMessage SHA256 (bufferToString artifact))]
         \<and> filter (\<lambda>c. c = Counter \<or> transaction_of c \<noteq> None)
              (handler_calls SHA256 env query w)
             = [SendTransaction txData, Counter]
         \<and> (weiCounter < 2 ^ 53 \<longrightarrow> js_minus_one weiCounter = int weiCounter - 1)"
proof -
  from reaches_Done_D [OF assms] obtain stdout stderr artifact account gasPrice gasCost1 dataTx
    receipt weiCounter result
    where h: "fst (prover env (files w)) = (0, stdout, stderr)"
      "snd (prover env (files w)) PROOF_PATH = Some artifact"
      "writeFile_error env = None"
      "privateKeyToAccount env = Inr account"
      "getGasPrice env = Inr gasPrice"
      "estimateGas env (hashMessage SHA256 (bufferToString artifact)) account = Inr gasCost1"
      "encodeABI env (hashMessage SHA256 (bufferToString artifact)) = Inr dataTx"
      "counter env = Inr weiCounter"
    by blast
  have "handler_calls SHA256 env query w
          = [Exec PROVE_COMMAND, ReadFileSync PROOF_PATH,
             WriteFileSync ''test.txt'' (bufferToString artifact),
             PrivateKeyToAccount, WalletAdd account,
             Create_proof (hashMessage SHA256 (bufferToString artifact)), GetGasPrice,
             EstimateGas (hashMessage SHA256 (bufferToString artifact)) account,
             EncodeABI (hashMessage SHA256 (bufferToString artifact)),
             SendTransaction
               [(''to'', JStr CONTRACT_ADDRESS), (''data'', JStr dataTx),
                (''gas'', JNum gasCost1), (''gasPrice'', JStr gasPrice)],
             PrivateKeyToAccount, WalletAdd account, Counter, ReadFileSync PROOF_PATH,
             Verify_proof (js_minus_one weiCounter)
               (hashMessage SHA256 (bufferToString artifact)),
             ResSend 200 (verified_chain_message query)]"
    by (simp add: handler_calls_eq after_exec_calls_def relaySetProof_calls_def
        verifyProof_calls_def h)
  then show ?thesis using h(2,8) by (simp add: js_minus_one_exact)
qed

lemma sample_reaches_Done:
  "reaches_Done pad32 (sample_env 0 [] [0x70, 0x66]) (sample_query (str ''0x69'')) world0"
  by (simp add: reaches_Done_alt fst_verified_chain console_since_verified_chain
      sample_env_def world0_def after_exec_logs_def relaySetProof_logs_def
      verifyProof_logs_def)

theorem round_trip_witness:
  "reaches_Done pad32 (sample_env 0 [] [0x70, 0x66]) (sample_query (str ''0x69'')) world0
   \<and> filter (\<lambda>c. commitment_of c \<noteq> None)
        (handler_calls pad32 (sample_env 0 [] [0x70, 0x66]) (sample_query (str ''0x69'')) world0)
       = [Create_proof (hashMessage pad32 (bufferToString [0x70, 0x66])),
          Verify_proof 5 (hashMessage pad32 (bufferToString [0x70, 0x66]))]"
proof -
  from round_trip [OF sample_reaches_Done] obtain artifact weiCounter
    where h: "snd (prover (sample_env 0 [] [0x70, 0x66]) (files world0)) PROOF_PATH
                = Some artifact"
      "counter (sample_env 0 [] [0x70, 0x66]) = Inr weiCounter"
      "filter (\<lambda>c. commitment_of c \<noteq> None)
         (handler_calls pad32 (sample_env 0 [] [0x70, 0x66]) (sample_query (str ''0x69'')) world0)
       = [Create_proof (hashMessage pad32 (bufferToString artifact)),
          Verify_proof (js_minus_one weiCounter) (hashMessage pad32 (bufferToString artifact))]"
    by blast
  from h(1) have "artifact = [0x70, 0x66]" by (simp add: sample_env_def)
  moreover from h(2) have "weiCounter = 6" by (simp add: sample_env_def)
  moreover have "js_minus_one 6 = 5" by (simp add: js_minus_one_exact)
  ultimately show ?thesis using h(3) sample_reaches_Done by simp
qed

section \<open>One artifact, one commitment\<close>

lemma commitments_relaySetProof_calls:
  "set (commitments (relaySetProof_calls env hello)) \<subseteq> {hello}"
  by (simp add: relaySetProof_calls_def split: sum.splits)

lemma commitments_verifyProof_calls:
  "set (commitments (verifyProof_calls SHA256 env (Some artifact)))
     \<subseteq> {hashMessage SHA256 (bufferToString artifact)}"
  by (simp add: verifyProof_calls_def split: sum.splits)

lemma commitments_after_exec_calls:
  "set (commitments (after_exec_calls SHA256 env query (Some artifact)))
     \<subseteq> {hashMessage SHA256 (bufferToString artifact)}"
  using commitments_relaySetProof_calls [of env "hashMessage SHA256 (bufferToString artifact)"]
    commitments_verifyProof_calls [of SHA256 env artifact]
  by (auto simp add: after_exec_calls_def split: option.splits)

lemma commitments_handler_calls:
  assumes "snd (prover env (files w)) PROOF_PATH = Some artifact"
  shows "set (commitments (handler_calls SHA256 env query w))
           \<subseteq> {hashMessage SHA256 (bufferToString artifact)}"
  using commitments_after_exec_calls [of SHA256 env query artifact] assms
  by (simp add: handler_calls_eq)

text \<open>
  C7. \<open>hashMessage\<close> is a function of the string it is given and of nothing else: it
  reads no file, no variable of the module and no clock. So every call on the text of
  one artifact gives one commitment: take any two requests, with any collaborators,
  queries and worlds, whose provers leave the same bytes; every commitment either
  request hands to the contract, whether computed in \<^verbatim>\<open>proof\<close> or computed again in
  \<^verbatim>\<open>verifyProof\<close>, is the same string.
\<close>

theorem same_artifact_same_commitment:
  assumes "snd (prover env1 (files w1)) PROOF_PATH = Some artifact"
    and "snd (prover env2 (files w2)) PROOF_PATH = Some artifact"
  shows "set (commitments (handler_calls SHA256 env1 query1 w1))
           \<union> set (commitments (handler_calls SHA256 env2 query2 w2))
         \<subseteq> {hashMessage SHA256 (bufferToString artifact)}"
  using commitments_handler_calls [OF assms(1)] commitments_handler_calls [OF assms(2)]
  by simp

theorem same_artifact_same_commitment_witness:
  "snd (prover (sample_env 0 [] [0x70, 0x66]) (files world0)) PROOF_PATH = Some [0x70, 0x66]
   \<and> snd (prover sample_env_rejecting (files (world0\<lparr>files := [''test.txt'' \<mapsto> []]\<rparr>)))
         PROOF_PATH = Some [0x70, 0x66]
   \<and> set (commitments (handler_calls pad32 (sample_env 0 [] [0x70, 0x66])
                          (sample_query []) world0))
       \<union> set (commitments (handler_calls pad32 sample_env_rejecting (sample_query (str ''0x69''))
                              (world0\<lparr>files := [''test.txt'' \<mapsto> []]\<rparr>)))
       \<subseteq> {hashMessage pad32 (bufferToString [0x70, 0x66])}"
proof -
  have a: "snd (prover (sample_env 0 [] [0x70, 0x66]) (files world0)) PROOF_PATH
             = Some [0x70, 0x66]"
    by (simp add: sample_env_def)
  have b: "snd (prover sample_env_rejecting (files (world0\<lparr>files := [''test.txt'' \<mapsto> []]\<rparr>)))
             PROOF_PATH = Some [0x70, 0x66]"
    by (simp add: sample_env_rejecting_def sample_env_def)
  from same_artifact_same_commitment [OF a b, of pad32 "sample_query []" "sample_query (str ''0x69'')"]
    a b
  show ?thesis by blast
qed

section \<open>The transaction of \<^verbatim>\<open>create_proof\<close> and its nonce\<close>

lemma transactions_relaySetProof_calls:
  "txData \<in> set (transactions (relaySetProof_calls env hello))
     \<Longrightarrow> map fst txData = [''to'', ''data'', ''gas'', ''gasPrice''] \<and> map_of txData ''nonce'' = None"
  by (auto simp add: relaySetProof_calls_def split: sum.splits)

lemma transactions_verifyProof_calls:
  "transactions (verifyProof_calls SHA256 env artifact) = []"
  by (simp add: verifyProof_calls_def split: sum.splits option.splits)

lemma no_count_relaySetProof_calls:
  "filter is_GetTransactionCount (relaySetProof_calls env hello) = []"
  by (simp add: relaySetProof_calls_def split: sum.splits)

lemma no_count_verifyProof_calls:
  "filter is_GetTransactionCount (verifyProof_calls SHA256 env artifact) = []"
  by (simp add: verifyProof_calls_def split: sum.splits option.splits)

lemma calls_relaySetHello:
  "calls_since w (snd (relaySetHello envh hello helloSetter signature w))
     = GetTransactionCount BACKEND_WALLET_ADDRESS ''latest''
       # (case getTransactionCount envh of
            Inl e \<Rightarrow> []
          | Inr nonce \<Rightarrow>
             (case encodeABI_relaySetHello envh hello helloSetter signature of
                Inl e \<Rightarrow> []
              | Inr data \<Rightarrow>
                 SignTransaction
                   [(''from'', JStr (str BACKEND_WALLET_ADDRESS)),
                    (''to'', JStr (str CONTRACT_ADDRESS_GOERLI)),
                    (''value'', JNum 0), (''gas'', JNum 300000), (''nonce'', JNum nonce),
                    (''data'', JStr data)]
                 # (case signTransaction envh
                           [(''from'', JStr (str BACKEND_WALLET_ADDRESS)),
                            (''to'', JStr (str CONTRACT_ADDRESS_GOERLI)),
                            (''value'', JNum 0), (''gas'', JNum 300000), (''nonce'', JNum nonce),
                            (''data'', JStr data)] of
                      Inl e \<Rightarrow> []
                    | Inr rawTransaction \<Rightarrow> [SendSignedTransaction rawTransaction])))"
  by (rule calls_since_append)
     (simp add: relaySetHello_def Let_def split: sum.splits)

text \<open>
  C5 as stated fails. The transaction object that \<^verbatim>\<open>relaySetProof\<close> hands to
  \<^verbatim>\<open>sendTransaction\<close> has the keys \<^verbatim>\<open>to\<close>, \<^verbatim>\<open>data\<close>, \<^verbatim>\<open>gas\<close> and \<^verbatim>\<open>gasPrice\<close>:
  there is no nonce in it, and the request never asks the node for the transaction
  count.
\<close>

theorem sample_transaction_has_no_nonce:
  "transactions (handler_calls pad32 (sample_env 0 [] [0x70, 0x66]) (sample_query (str ''0x69'')) world0)
     = [[(''to'', JStr CONTRACT_ADDRESS),
         (''data'', JStr (str ''0xd0'' @ hashMessage pad32 (str ''pf''))),
         (''gas'', JNum 50000), (''gasPrice'', JStr (str ''7''))]]
   \<and> map_of (hd (transactions (handler_calls pad32 (sample_env 0 [] [0x70, 0x66])
                   (sample_query (str ''0x69'')) world0))) ''nonce'' = None
   \<and> filter is_GetTransactionCount
        (handler_calls pad32 (sample_env 0 [] [0x70, 0x66]) (sample_query (str ''0x69'')) world0) = []"
  by (simp add: handler_calls_eq sample_env_def world0_def
        after_exec_calls_def relaySetProof_calls_def verifyProof_calls_def bufferToString_pf)

text \<open>
  C5, amended. Every transaction object built for a \<^verbatim>\<open>create_proof\<close> submission has
  exactly the keys \<^verbatim>\<open>to\<close>, \<^verbatim>\<open>data\<close>, \<^verbatim>\<open>gas\<close> and \<^verbatim>\<open>gasPrice\<close> and no nonce, and the
  request makes no \<^verbatim>\<open>getTransactionCount\<close> call: the nonce is left to
  \<^verbatim>\<open>provider.eth.sendTransaction\<close>. It is \<^verbatim>\<open>relaySetHello\<close>, of the earlier revision,
  that fetches the nonce: its first call is \<^verbatim>\<open>getTransactionCount\<close>, and the
  transaction it signs carries the count that call returned.
\<close>

theorem nonce_left_to_web3:
  "(\<forall>txData \<in> set (transactions (handler_calls SHA256 env query w)).
       map fst txData = [''to'', ''data'', ''gas'', ''gasPrice''] \<and> map_of txData ''nonce'' = None)
   \<and> filter is_GetTransactionCount (handler_calls SHA256 env query w) = []
   \<and> take 1 (calls_since w (snd (relaySetHello envh hello helloSetter signature w)))
       = [GetTransactionCount BACKEND_WALLET_ADDRESS ''latest'']
   \<and> (\<forall>transaction \<in> set (List.map_filter signed_transaction_of
                            (calls_since w (snd (relaySetHello envh hello helloSetter signature w)))).
        \<exists>nonce. getTransactionCount envh = Inr nonce
               \<and> map_of transaction ''nonce'' = Some (JNum nonce))"
  apply (intro conjI)
  subgoal
    using transactions_relaySetProof_calls
    by (auto simp add: handler_calls_eq after_exec_calls_def transactions_verifyProof_calls
        split: option.splits if_splits)
  subgoal
    by (simp add: handler_calls_eq after_exec_calls_def no_count_relaySetProof_calls
        no_count_verifyProof_calls split: option.splits)
  subgoal by (simp add: calls_relaySetHello)
  subgoal
    by (auto simp add: calls_relaySetHello map_filter_def split: sum.splits)
  done

theorem nonce_left_to_web3_witness:
  "[(''to'', JStr CONTRACT_ADDRESS), (''data'', JStr (str ''0xd0'' @ hashMessage pad32 (str ''pf''))),
    (''gas'', JNum 50000), (''gasPrice'', JStr (str ''7''))]
     \<in> set (transactions (handler_calls pad32 (sample_env 0 [] [0x70, 0x66])
                             (sample_query []) world0))
   \<and> [(''from'', JStr (str BACKEND_WALLET_ADDRESS)), (''to'', JStr (str CONTRACT_ADDRESS_GOERLI)),
       (''value'', JNum 0), (''gas'', JNum 300000), (''nonce'', JNum 3),
       (''data'', JStr (str ''0xd1''))]
     \<in> set (List.map_filter signed_transaction_of
              (calls_since world0
                 (snd (relaySetHello sample_env_hello QUndefined QUndefined QUndefined world0))))
   \<and> (\<exists>nonce. getTransactionCount sample_env_hello = Inr nonce
          \<and> map_of [(''from'', JStr (str BACKEND_WALLET_ADDRESS)),
                     (''to'', JStr (str CONTRACT_ADDRESS_GOERLI)),
                     (''value'', JNum 0), (''gas'', JNum 300000), (''nonce'', JNum 3),
                     (''data'', JStr (str ''0xd1''))] ''nonce'' = Some (JNum nonce))"
proof -
  have a: "[(''to'', JStr CONTRACT_ADDRESS),
            (''data'', JStr (str ''0xd0'' @ hashMessage pad32 (str ''pf''))),
            (''gas'', JNum 50000), (''gasPrice'', JStr (str ''7''))]
     \<in> set (transactions (handler_calls pad32 (sample_env 0 [] [0x70, 0x66])
                             (sample_query []) world0))"
    by (simp add: handler_calls_eq sample_env_def world0_def
        after_exec_calls_def relaySetProof_calls_def verifyProof_calls_def bufferToString_pf)
  have b: "[(''from'', JStr (str BACKEND_WALLET_ADDRESS)),
            (''to'', JStr (str CONTRACT_ADDRESS_GOERLI)),
            (''value'', JNum 0), (''gas'', JNum 300000), (''nonce'', JNum 3),
            (''data'', JStr (str ''0xd1''))]
     \<in> set (List.map_filter signed_transaction_of
              (calls_since world0
                 (snd (relaySetHello sample_env_hello QUndefined QUndefined QUndefined world0))))"
    by (simp add: calls_relaySetHello sample_env_hello_def map_filter_def)
  from nonce_left_to_web3
      [of pad32 "sample_env 0 [] [0x70, 0x66]" "sample_query []" world0 sample_env_hello
          QUndefined QUndefined QUndefined] a b
  show ?thesis by blast
qed

section \<open>The boolean of \<^verbatim>\<open>verify_proof\<close>\<close>

lemma with_verify_payload_simps [simp]:
  "prover (with_verify_payload f env) = prover env"
  "writeFile_error (with_verify_payload f env) = writeFile_error env"
  "privateKeyToAccount (with_verify_payload f env) = privateKeyToAccount env"
  "counter (with_verify_payload f env) = counter env"
  by (simp_all add: with_verify_payload_def)





section \<open>The signature\<close>

lemma message_signature:
  "verified_chain_message (query(''signature'' := s)) = verified_chain_message query"
  by (simp add: verified_chain_message_def)

lemma after_exec_calls_signature:
  "after_exec_calls SHA256 env (query(''signature'' := s)) artifact
     = after_exec_calls SHA256 env query artifact"
  by (simp add: after_exec_calls_def message_signature cong: case_congs)

lemma after_exec_logs_signature:
  "filter (\<lambda>x. \<not> is_LogOutput x)
     (after_exec_logs SHA256 env (query(''signature'' := s)) stdout stderr artifact)
     = filter (\<lambda>x. \<not> is_LogOutput x) (after_exec_logs SHA256 env query stdout stderr artifact)"
  by (simp add: after_exec_logs_def cong: case_congs)

text \<open>
  C10. The signature of the query is passed to \<^verbatim>\<open>proof\<close> and logged there, in the line
  that prints the output of the prover, and nowhere else. Two requests that differ in
  the signature only give the handler the same result, make the same calls with the same
  arguments (the commitment of \<^verbatim>\<open>create_proof\<close> and \<^verbatim>\<open>verify_proof\<close>, the transaction
  sent and the response among them), leave the same files and the same default account,
  and log the same lines apart from that one.
\<close>

theorem signature_ignored:
  "fst (verified_chain SHA256 env (query(''signature'' := s1)) w)
     = fst (verified_chain SHA256 env (query(''signature'' := s2)) w)
   \<and> calls (snd (verified_chain SHA256 env (query(''signature'' := s1)) w))
     = calls (snd (verified_chain SHA256 env (query(''signature'' := s2)) w))
   \<and> files (snd (verified_chain SHA256 env (query(''signature'' := s1)) w))
     = files (snd (verified_chain SHA256 env (query(''signature'' := s2)) w))
   \<and> defaultAccount (snd (verified_chain SHA256 env (query(''signature'' := s1)) w))
     = defaultAccount (snd (verified_chain SHA256 env (query(''signature'' := s2)) w))
   \<and> filter (\<lambda>x. \<not> is_LogOutput x)
        (console (snd (verified_chain SHA256 env (query(''signature'' := s1)) w)))
     = filter (\<lambda>x. \<not> is_LogOutput x)
        (console (snd (verified_chain SHA256 env (query(''signature'' := s2)) w)))"
  apply (intro conjI)
  subgoal by (simp add: fst_verified_chain)
  subgoal by (simp add: calls_verified_chain after_exec_calls_signature)
  subgoal by (simp add: files_verified_chain)
  subgoal by (simp add: defaultAccount_verified_chain)
  subgoal by (simp add: console_verified_chain after_exec_logs_signature split: prod.splits)
  done

section \<open>Two requests and one artifact file\<close>

lemma step_AwaitExec:
  "step SHA256 request AwaitExec w
     = (AfterExec (fst (exec (fst request) PROVE_COMMAND w)),
        snd (exec (fst request) PROVE_COMMAND w))"
  by (simp add: step_def split: prod.splits)

lemma step_AfterExec:
  "step SHA256 request (AfterExec r) w
     = (Finished (fst (verified_chain_after_exec SHA256 (fst request) (snd request) r w)),
        snd (verified_chain_after_exec SHA256 (fst request) (snd request) r w))"
  by (simp add: step_def split: prod.splits)

lemma verified_chain_steps:
  "verified_chain SHA256 env query w
     = verified_chain_after_exec SHA256 env query (fst (exec env PROVE_COMMAND w))
         (snd (exec env PROVE_COMMAND w))"
  by (simp add: verified_chain_split split: prod.splits)

lemma run_schedule_sequential:
  "run_schedule SHA256 [(envA, queryA), (envB, queryB)] [0, 0, 1, 1] [AwaitExec, AwaitExec] w
     = ([Finished (fst (verified_chain SHA256 envA queryA w)),
         Finished (fst (verified_chain SHA256 envB queryB
                          (snd (verified_chain SHA256 envA queryA w))))],
        snd (verified_chain SHA256 envB queryB (snd (verified_chain SHA256 envA queryA w))))"
  by (simp add: step_AwaitExec step_AfterExec verified_chain_steps)

lemma calls_handler_calls:
  "calls (snd (verified_chain SHA256 env query w)) = calls w @ handler_calls SHA256 env query w"
  by (simp add: calls_verified_chain handler_calls_eq)

lemma bufferToString_b: "bufferToString [0x62] = str ''b''"
  by (simp add: bufferToString_def lead_byte_def str_def)

text \<open>
  C6 as stated fails. Two requests are in flight; the prover of the first leaves the
  artifact \<open>a\<close>, the prover of the second then overwrites it with \<open>b\<close> at the same
  path, and the handler of the first resumes. The first request runs to its end on
  the artifact of the other request: what it reads from the path and writes to
  \<^verbatim>\<open>test.txt\<close> is \<open>b\<close>.
\<close>

theorem overlapping_requests_share_artifact:
  "fst (run_schedule pad32
          [(sample_env 0 [] [0x61], sample_query []), (sample_env 0 [] [0x62], sample_query [])]
          [0, 1, 0] [AwaitExec, AwaitExec] world0)
     = [Finished (Inr ()), AfterExec (Inr ([], []))]
   \<and> snd (prover (sample_env 0 [] [0x61]) (files world0)) PROOF_PATH = Some [0x61]
   \<and> files (snd (run_schedule pad32
          [(sample_env 0 [] [0x61], sample_query []), (sample_env 0 [] [0x62], sample_query [])]
          [0, 1] [AwaitExec, AwaitExec] world0)) PROOF_PATH = Some [0x62]
   \<and> take 4 (calls (snd (run_schedule pad32
          [(sample_env 0 [] [0x61], sample_query []), (sample_env 0 [] [0x62], sample_query [])]
          [0, 1, 0] [AwaitExec, AwaitExec] world0)))
     = [Exec PROVE_COMMAND, Exec PROVE_COMMAND, ReadFileSync PROOF_PATH,
        WriteFileSync ''test.txt'' (str ''b'')]
   \<and> files (snd (run_schedule pad32
          [(sample_env 0 [] [0x61], sample_query []), (sample_env 0 [] [0x62], sample_query [])]
          [0, 1, 0] [AwaitExec, AwaitExec] world0)) ''test.txt'' = Some [0x62]
   \<and> bufferToString [0x61] = str ''a'' \<and> str ''a'' \<noteq> str ''b''"
proof -
  have r: "run_schedule pad32
          [(sample_env 0 [] [0x61], sample_query []), (sample_env 0 [] [0x62], sample_query [])]
          [0, 1] [AwaitExec, AwaitExec] world0
     = ([AfterExec (Inr ([], [])), AfterExec (Inr ([], []))],
        snd (exec (sample_env 0 [] [0x62]) PROVE_COMMAND
               (snd (exec (sample_env 0 [] [0x61]) PROVE_COMMAND world0))))"
    by (simp add: step_AwaitExec exec_eq sample_env_def)
  have s: "run_schedule pad32
          [(sample_env 0 [] [0x61], sample_query []), (sample_env 0 [] [0x62], sample_query [])]
          [0, 1, 0] [AwaitExec, AwaitExec] world0
     = ([Finished (fst (verified_chain_after_exec pad32 (sample_env 0 [] [0x61]) (sample_query [])
                          (Inr ([], []))
                          (snd (exec (sample_env 0 [] [0x62]) PROVE_COMMAND
                                  (snd (exec (sample_env 0 [] [0x61]) PROVE_COMMAND world0)))))),
         AfterExec (Inr ([], []))],
        snd (verified_chain_after_exec pad32 (sample_env 0 [] [0x61]) (sample_query [])
               (Inr ([], []))
               (snd (exec (sample_env 0 [] [0x62]) PROVE_COMMAND
                       (snd (exec (sample_env 0 [] [0x61]) PROVE_COMMAND world0))))))"
    by (simp add: step_AwaitExec step_AfterExec exec_eq sample_env_def)
  have a: "bufferToString [0x61] = str ''a''"
    by (simp add: bufferToString_def lead_byte_def str_def)
  have e: "utf8_encode (str ''b'') = [0x62]"
    by (simp add: str_def utf8_bytes_of_unit_def is_high_surrogate_def is_low_surrogate_def
        utf8_bytes_of_cp_def)
  show ?thesis
    unfolding s r
    by (simp add: fst_after_exec calls_after_exec files_after_exec exec_eq sample_env_def
        world0_def after_exec_calls_def relaySetProof_calls_def verifyProof_calls_def
        bufferToString_b a e str_eq_iff test_txt_neq)
qed

text \<open>
  C6, amended. Every request uses the one path \<^verbatim>\<open>./ezkl/1l_relu.pf\<close>. When the requests
  do not overlap, the handler of the first running to its end before the prover of the
  second starts, each request hands to the contract only the commitment of the
  artifact its own prover left. (When they overlap, a request can read the artifact of
  the other, as above.)
\<close>

theorem sequential_requests_own_artifact:
  assumes "snd (prover envA (files w)) PROOF_PATH = Some a"
    and "snd (prover envB (files (snd (verified_chain SHA256 envA queryA w)))) PROOF_PATH = Some b"
  shows "run_schedule SHA256 [(envA, queryA), (envB, queryB)] [0, 0, 1, 1]
           [AwaitExec, AwaitExec] w
         = ([Finished (fst (verified_chain SHA256 envA queryA w)),
             Finished (fst (verified_chain SHA256 envB queryB
                              (snd (verified_chain SHA256 envA queryA w))))],
            snd (verified_chain SHA256 envB queryB (snd (verified_chain SHA256 envA queryA w))))
       \<and> calls (snd (run_schedule SHA256 [(envA, queryA), (envB, queryB)] [0, 0, 1, 1]
                       [AwaitExec, AwaitExec] w))
         = calls w @ handler_calls SHA256 envA queryA w
             @ handler_calls SHA256 envB queryB (snd (verified_chain SHA256 envA queryA w))
       \<and> set (commitments (handler_calls SHA256 envA queryA w))
           \<subseteq> {hashMessage SHA256 (bufferToString a)}
       \<and> set (commitments (handler_calls SHA256 envB queryB
                              (snd (verified_chain SHA256 envA queryA w))))
           \<subseteq> {hashMessage SHA256 (bufferToString b)}"
  unfolding run_schedule_sequential
  using commitments_handler_calls [OF assms(1), of SHA256 queryA]
    commitments_handler_calls [OF assms(2), of SHA256 queryB]
  by (simp add: calls_handler_calls)

theorem sequential_requests_own_artifact_witness:
  "snd (prover (sample_env 0 [] [0x61]) (files world0)) PROOF_PATH = Some [0x61]
   \<and> snd (prover (sample_env 0 [] [0x62])
            (files (snd (verified_chain pad32 (sample_env 0 [] [0x61]) (sample_query []) world0))))
        PROOF_PATH = Some [0x62]
   \<and> set (commitments (handler_calls pad32 (sample_env 0 [] [0x61]) (sample_query []) world0))
       \<subseteq> {hashMessage pad32 (bufferToString [0x61])}
   \<and> set (commitments (handler_calls pad32 (sample_env 0 [] [0x62]) (sample_query [])
                          (snd (verified_chain pad32 (sample_env 0 [] [0x61]) (sample_query [])
                                  world0))))
       \<subseteq> {hashMessage pad32 (bufferToString [0x62])}"
proof -
  have a: "snd (prover (sample_env 0 [] [0x61]) (files world0)) PROOF_PATH = Some [0x61]"
    by (simp add: sample_env_def)
  have b: "snd (prover (sample_env 0 [] [0x62])
            (files (snd (verified_chain pad32 (sample_env 0 [] [0x61]) (sample_query []) world0))))
        PROOF_PATH = Some [0x62]"
    by (simp add: sample_env_def)
  from sequential_requests_own_artifact [OF a b, of "sample_query []"] a b
  show ?thesis by blast
qed

end
